theory Spec2Isabelle
  imports Complex_Main
begin

section \<open>SCIMITAR plotting module (scimitar/plotting.py)\<close>

text \<open>
  The module is glue between numpy, scikit-learn, scipy, matplotlib and seaborn. The
  embedding keeps the control flow, the index arithmetic and the order of the library
  calls of each function of \<^verbatim>\<open>plotting.py\<close>. The libraries themselves are opaque:
  what they compute is a parameter of the model, and every call that draws or touches the
  embedding object is recorded in a trace.

  Conventions of the model:
  \<^item> numpy floats are idealised as \<^typ>\<open>real\<close>; rounding error is not modelled;
  \<^item> the source is Python 2 code: \<^verbatim>\<open>/\<close> between two integers is floor division
    (line 54 converts with \<^verbatim>\<open>float(len(memberships))\<close> before dividing, and line 149
    uses the result of line 146 as an index array, which numpy accepts for integers only);
  \<^item> an exception is a value \<open>Inl e\<close> of the result.
\<close>

subsection \<open>Exceptions and Python primitives\<close>

datatype py_error = IndexError | KeyError | ZeroDivisionError | NotFittedError | LibraryError

text \<open>\<^verbatim>\<open>int(x)\<close> on a float truncates towards zero.\<close>

definition py_int :: "real \<Rightarrow> int" where
  "py_int x = (if 0 \<le> x then \<lfloor>x\<rfloor> else \<lceil>x\<rceil>)"

text \<open>
  \<^verbatim>\<open>xs[i]\<close> on a Python list or a numpy array: a negative index counts from the end,
  anything outside \<open>-len .. len-1\<close> raises IndexError.
\<close>

definition py_getitem :: "'a list \<Rightarrow> int \<Rightarrow> py_error + 'a" where
  "py_getitem xs i =
     (if 0 \<le> i \<and> i < int (length xs) then Inr (xs ! nat i)
      else if i < 0 \<and> - int (length xs) \<le> i then Inr (xs ! nat (int (length xs) + i))
      else Inl IndexError)"

text \<open>\<^verbatim>\<open>d[k]\<close> on a dictionary (or any keyed store): a missing key raises KeyError.\<close>

definition py_lookup :: "('k \<rightharpoonup> 'v) \<Rightarrow> 'k \<Rightarrow> py_error + 'v" where
  "py_lookup d k = (case d k of None \<Rightarrow> Inl KeyError | Some v \<Rightarrow> Inr v)"

text \<open>A list comprehension whose element expression may raise stops at the first exception.\<close>

fun map_result :: "('a \<Rightarrow> py_error + 'b) \<Rightarrow> 'a list \<Rightarrow> py_error + 'b list" where
  "map_result f [] = Inr []"
| "map_result f (x # xs) =
     (case f x of
        Inl e \<Rightarrow> Inl e
      | Inr y \<Rightarrow> (case map_result f xs of Inl e \<Rightarrow> Inl e | Inr ys \<Rightarrow> Inr (y # ys)))"

subsection \<open>numpy\<close>

text \<open>
  \<^verbatim>\<open>np.arange(start, stop, step)\<close> has \<open>ceil((stop - start) / step)\<close> elements (none
  when that is not positive), element \<open>i\<close> being \<open>start + i * step\<close>. A zero step raises.
\<close>

definition arange_len :: "real \<Rightarrow> real \<Rightarrow> real \<Rightarrow> nat" where
  "arange_len start stop step = nat \<lceil>(stop - start) / step\<rceil>"

definition np_arange :: "real \<Rightarrow> real \<Rightarrow> real \<Rightarrow> py_error + real list" where
  "np_arange start stop step =
     (if step = 0 then Inl ZeroDivisionError
      else Inr (map (\<lambda>i. start + real i * step) [0..<arange_len start stop step]))"

definition np_arange_int :: "int \<Rightarrow> int \<Rightarrow> int \<Rightarrow> py_error + int list" where
  "np_arange_int start stop step =
     (if step = 0 then Inl ZeroDivisionError
      else Inr (map (\<lambda>i. start + int i * step)
                  [0..<arange_len (real_of_int start) (real_of_int stop) (real_of_int step)]))"

text \<open>\<^verbatim>\<open>np.unique(a)\<close>: the distinct elements of \<open>a\<close>, ascending.\<close>

definition np_unique :: "int list \<Rightarrow> int list" where
  "np_unique a = sort (remdups a)"

text \<open>\<^verbatim>\<open>a[r]\<close> with an integer index array \<open>r\<close>: one lookup per index.\<close>

definition np_take :: "'a list \<Rightarrow> int list \<Rightarrow> py_error + 'a list" where
  "np_take a r = map_result (py_getitem a) r"

subsection \<open>Data\<close>

text \<open>
  A data matrix is the list of its rows, \<^verbatim>\<open>data.shape[0]\<close> is the number of rows.
  A projected matrix has two columns (\<^verbatim>\<open>n_components=2\<close>), so it is a list of pairs:
  \<^verbatim>\<open>t[:, 0]\<close> is \<open>map fst t\<close> and \<^verbatim>\<open>t[:, 1]\<close> is \<open>map snd t\<close>.
\<close>

type_synonym matrix = "real list list"
type_synonym points = "(real \<times> real) list"
type_synonym color = string

definition shape0 :: "'a list \<Rightarrow> nat" where
  "shape0 m = length m"

subsection \<open>The embedding object and \<^verbatim>\<open>choose_2d_embedding\<close>\<close>

datatype lle_method = Standard | Modified

text \<open>
  A \<^verbatim>\<open>LocallyLinearEmbedding\<close> object: its constructor arguments and its fitted state
  (\<open>None\<close> until it is fit). The type \<open>'f\<close> of fitted states belongs to scikit-learn.
\<close>

record 'f lle =
  n_components :: nat
  n_neighbors :: int
  lle_meth :: lle_method
  fitted :: "'f option"

definition choose_2d_embedding :: "matrix \<Rightarrow> int option \<Rightarrow> 'f lle" where
  "choose_2d_embedding data n_neighbors_arg =
     (let n_neighbors = (case n_neighbors_arg of
                           None \<Rightarrow> py_int (real (shape0 data) * 0.8)
                         | Some k \<Rightarrow> k);
          method = (if shape0 data < 50 then Modified else Standard)
      in \<lparr>n_components = 2, n_neighbors = n_neighbors, lle_meth = method, fitted = None\<rparr>)"

text \<open>
  The default of the \<^verbatim>\<open>timepoints\<close> parameter of \<^verbatim>\<open>plot_transition_model\<close> (line 81):
  \<^verbatim>\<open>np.arange(0, 1, 0.02)\<close>.
\<close>

definition default_timepoints :: "py_error + real list" where
  "default_timepoints = np_arange 0 1 0.02"

text \<open>
  Lines 146 and 149 of \<^verbatim>\<open>plot_transition_clustermap\<close>: the tick positions
  \<^verbatim>\<open>np.arange(10, data_array.shape[0], data_array.shape[0]/10)\<close> and the pseudotimes
  read at them.
\<close>

definition clustermap_xticks :: "nat \<Rightarrow> py_error + int list" where
  "clustermap_xticks rows = np_arange_int 10 (int rows) (int rows div 10)"

subsection \<open>Effects: exceptions and the trace of library calls\<close>

type_synonym kwargs = "(string \<times> string) list"

datatype target = Pyplot | Ax nat | Heatmap

datatype color_arg = PerPoint "color list" | Uniform color

text \<open>
  One constructor per library call that draws or that touches the embedding object, with
  the arguments the source passes. \<open>Plot\<close> carries the x list, the y list and the line
  width; \<open>Text\<close> the position and the integer printed before the percent sign;
  \<open>Scatter\<close> the coordinates, the colour argument, the size argument \<^verbatim>\<open>s=\<close> and the
  remaining keyword arguments.
\<close>

datatype call =
    LLE_fit_transform matrix
  | LLE_transform matrix
  | Subplots nat
  | Scatter target "real list" "real list" color_arg "real list option" kwargs
  | Plot target "real list" "real list" real
  | Text target real real int
  | Kdeplot "real list" "real list" nat string
  | Clustermap matrix "nat option" "string list" "color list"
  | Setp_yticklabels
  | Set_xticks target "real list"
  | Set_yticks target "real list"
  | Set_xticklabels target "real list"
  | Xlabel target string
  | Ylabel target string
  | Despine
  | Add_subplot
  | Tick_params

text \<open>A computation yields a value or an exception, and the calls it made until then.\<close>

type_synonym 'a act = "(py_error + 'a) \<times> call list"

definition ret :: "'a \<Rightarrow> 'a act" where
  "ret x = (Inr x, [])"

definition lift :: "py_error + 'a \<Rightarrow> 'a act" where
  "lift r = (r, [])"

definition emit :: "call \<Rightarrow> unit act" where
  "emit c = (Inr (), [c])"

definition andthen :: "'a act \<Rightarrow> ('a \<Rightarrow> 'b act) \<Rightarrow> 'b act" where
  "andthen m f =
     (case m of
        (Inl e, t) \<Rightarrow> (Inl e, t)
      | (Inr x, t) \<Rightarrow> (case f x of (r, t') \<Rightarrow> (r, t @ t')))"

fun map_act :: "('a \<Rightarrow> 'b act) \<Rightarrow> 'a list \<Rightarrow> 'b list act" where
  "map_act f [] = ret []"
| "map_act f (x # xs) =
     andthen (f x) (\<lambda>y. andthen (map_act f xs) (\<lambda>ys. ret (y # ys)))"

definition for_each :: "('a \<Rightarrow> unit act) \<Rightarrow> 'a list \<Rightarrow> unit act" where
  "for_each f xs = andthen (map_act f xs) (\<lambda>_. ret ())"

subsection \<open>Collaborators\<close>

text \<open>
  scikit-learn's \<^verbatim>\<open>LocallyLinearEmbedding\<close>: what fitting and transforming compute is a
  parameter. \<^verbatim>\<open>fit_transform\<close> stores a fitted state in the object and returns the
  projected rows; \<^verbatim>\<open>transform\<close> reads the fitted state, raises on an object that was
  never fit, and leaves the object as it is.
\<close>

record 'f sklearn =
  fit_transform_impl :: "'f lle \<Rightarrow> matrix \<Rightarrow> py_error + ('f \<times> points)"
  transform_impl :: "'f \<Rightarrow> matrix \<Rightarrow> py_error + points"

definition fit_transform :: "'f sklearn \<Rightarrow> 'f lle \<Rightarrow> matrix \<Rightarrow> ('f lle \<times> points) act" where
  "fit_transform lib emb data =
     andthen (emit (LLE_fit_transform data)) (\<lambda>_.
       case fit_transform_impl lib emb data of
         Inl e \<Rightarrow> lift (Inl e)
       | Inr (f, pts) \<Rightarrow> ret (emb\<lparr>fitted := Some f\<rparr>, pts))"

definition transform :: "'f sklearn \<Rightarrow> 'f lle \<Rightarrow> matrix \<Rightarrow> points act" where
  "transform lib emb data =
     andthen (emit (LLE_transform data)) (\<lambda>_.
       case fitted emb of
         None \<Rightarrow> lift (Inl NotFittedError)
       | Some f \<Rightarrow> lift (transform_impl lib f data))"

text \<open>
  The metastable graph: a state model with \<^verbatim>\<open>predict\<close> and \<^verbatim>\<open>centroids\<close>, the
  edges, and the dictionary of edge weights, whose keys are pairs of state objects. Of a
  state object the module reads the \<^verbatim>\<open>index\<close> attribute only. The dictionary is the
  list of its items in iteration order.
\<close>

record mstate =
  index :: int

record state_model =
  predict :: "matrix \<Rightarrow> int list"
  centroids :: "int \<rightharpoonup> matrix"

record graph =
  state_model :: state_model
  state_edges :: "(mstate \<times> mstate) list"
  edge_weights :: "((mstate \<times> mstate) \<times> real) list"

record transition_model =
  tm_mean :: "real list \<Rightarrow> matrix"
  sample_along_timepoints :: "real list \<Rightarrow> nat \<Rightarrow> points \<Rightarrow> matrix"

text \<open>
  Modelled from the spec: \<^verbatim>\<open>settings.STATE_COLORS\<close> (the module \<^verbatim>\<open>settings\<close> is
  not among the sources) is a read-only mapping from an integer state id to a display
  colour. It is a parameter \<open>palette\<close> of every function that reads it.
\<close>

definition state_colors :: "(int \<rightharpoonup> color) \<Rightarrow> int list \<Rightarrow> py_error + color list" where
  "state_colors palette labels = map_result (py_lookup palette) labels"

subsection \<open>\<^verbatim>\<open>plot_metastable_graph\<close>\<close>

text \<open>Lines 30 to 34, and again 82 to 86: fit a fresh embedding, or transform with the given one.\<close>

definition resolve_embedding ::
  "'f sklearn \<Rightarrow> matrix \<Rightarrow> int option \<Rightarrow> 'f lle option \<Rightarrow> ('f lle \<times> points) act" where
  "resolve_embedding lib data n_neighbors_arg embedding =
     (case embedding of
        None \<Rightarrow> fit_transform lib (choose_2d_embedding data n_neighbors_arg) data
      | Some emb \<Rightarrow> andthen (transform lib emb data) (\<lambda>transformed. ret (emb, transformed)))"

text \<open>Lines 35 and 36.\<close>

definition resolve_memberships :: "int list option \<Rightarrow> graph \<Rightarrow> matrix \<Rightarrow> int list" where
  "resolve_memberships memberships_arg metastable_graph data =
     (case memberships_arg of
        None \<Rightarrow> predict (state_model metastable_graph) data
      | Some ms \<Rightarrow> ms)"

text \<open>Line 53, one element: \<^verbatim>\<open>embedding.transform(centroids[s])[0]\<close>.\<close>

definition state_center :: "'f sklearn \<Rightarrow> 'f lle \<Rightarrow> state_model \<Rightarrow> int \<Rightarrow> (real \<times> real) act" where
  "state_center lib emb sm s =
     andthen (lift (py_lookup (centroids sm) s)) (\<lambda>c.
     andthen (transform lib emb c) (\<lambda>t.
     lift (py_getitem t 0)))"

text \<open>Line 54.\<close>

definition node_sizes :: "int list \<Rightarrow> int list \<Rightarrow> real list" where
  "node_sizes memberships ordered_states =
     map (\<lambda>state. 5000 * ln (1 + real (length (filter (\<lambda>m. m = state) memberships))
                                  / real (length memberships)))
       ordered_states"

text \<open>Lines 56 to 59.\<close>

definition resolve_state_edges :: "(mstate \<times> mstate) list \<Rightarrow> graph \<Rightarrow> (mstate \<times> mstate) list" where
  "resolve_state_edges se g = (if length se = 0 then state_edges g else se)"

definition resolve_edge_weights ::
  "((mstate \<times> mstate) \<times> real) list \<Rightarrow> graph \<Rightarrow> ((mstate \<times> mstate) \<times> real) list" where
  "resolve_edge_weights ew g = (if length ew = 0 then edge_weights g else ew)"

text \<open>Lines 61 to 66: the body of the loop over the items of \<^verbatim>\<open>edge_weights\<close>.\<close>

definition draw_edge :: "real list \<Rightarrow> real list \<Rightarrow> (mstate \<times> mstate) \<times> real \<Rightarrow> unit act" where
  "draw_edge X Y item =
     (case item of ((state1, state2), weight) \<Rightarrow>
        andthen (lift (py_getitem X (index state1))) (\<lambda>x1.
        andthen (lift (py_getitem X (index state2))) (\<lambda>x2.
        andthen (lift (py_getitem Y (index state1))) (\<lambda>y1.
        andthen (lift (py_getitem Y (index state2))) (\<lambda>y2.
        andthen (emit (Plot (Ax 1) [x1, x2] [y1, y2] (max 0.5 (7 * weight)))) (\<lambda>_.
        let midpoint_X = min x1 x2 + \<bar>x1 - x2\<bar> / 2;
            midpoint_Y = min y1 y2 + \<bar>y1 - y2\<bar> / 2
        in emit (Text (Ax 1) midpoint_X midpoint_Y (py_int (weight * 100)))))))))"

definition scatter_kwargs :: "kwargs \<Rightarrow> kwargs" where
  "scatter_kwargs scatter_plot_args =
     [(''linewidth'', ''0''), (''alpha'', ''0.6'')] @ scatter_plot_args"

text \<open>
  The function returns \<^verbatim>\<open>None\<close> (here \<open>None\<close>) when \<^verbatim>\<open>plot_edges\<close> is false, and the
  pair of the colour array and the embedding object otherwise.
\<close>

definition plot_metastable_graph ::
  "'f sklearn \<Rightarrow> (int \<rightharpoonup> color) \<Rightarrow> matrix \<Rightarrow> graph \<Rightarrow> int option \<Rightarrow> bool \<Rightarrow>
   (mstate \<times> mstate) list \<Rightarrow> ((mstate \<times> mstate) \<times> real) list \<Rightarrow> 'f lle option \<Rightarrow>
   int list option \<Rightarrow> kwargs \<Rightarrow> (color list \<times> 'f lle) option act" where
  "plot_metastable_graph lib palette data metastable_graph n_neighbors_arg plot_edges
       state_edges_arg edge_weights_arg embedding_arg memberships_arg scatter_plot_args =
     andthen (resolve_embedding lib data n_neighbors_arg embedding_arg) (\<lambda>(embedding, transformed).
     let memberships = resolve_memberships memberships_arg metastable_graph data in
     if \<not> plot_edges then
       andthen (lift (state_colors palette memberships)) (\<lambda>c.
       andthen (emit (Scatter Pyplot (map fst transformed) (map snd transformed) (PerPoint c)
                        None (scatter_kwargs scatter_plot_args))) (\<lambda>_.
       andthen (emit (Xlabel Pyplot ''Dimension 1'')) (\<lambda>_.
       andthen (emit (Ylabel Pyplot ''Dimension 2'')) (\<lambda>_.
       ret None))))
     else
       andthen (emit (Subplots 2)) (\<lambda>_.
       andthen (lift (state_colors palette memberships)) (\<lambda>c.
       andthen (emit (Scatter (Ax 0) (map fst transformed) (map snd transformed) (PerPoint c)
                        None (scatter_kwargs scatter_plot_args))) (\<lambda>_.
       andthen (emit (Set_xticks (Ax 0) [])) (\<lambda>_.
       andthen (emit (Set_yticks (Ax 0) [])) (\<lambda>_.
       andthen (emit Despine) (\<lambda>_.
       let ordered_states = np_unique memberships in
       andthen (map_act (state_center lib embedding (state_model metastable_graph))
                  ordered_states) (\<lambda>state_centers.
       let sizes = node_sizes memberships ordered_states;
           X = map fst state_centers;
           Y = map snd state_centers;
           state_edges = resolve_state_edges state_edges_arg metastable_graph;
           edge_weights = resolve_edge_weights edge_weights_arg metastable_graph
       in
       andthen (for_each (draw_edge X Y) edge_weights) (\<lambda>_.
       andthen (lift (state_colors palette ordered_states)) (\<lambda>node_colors.
       andthen (emit (Scatter (Ax 1) X Y (PerPoint node_colors) (Some sizes)
                        [(''linewidth'', ''0''), (''zorder'', ''2'')])) (\<lambda>_.
       andthen (emit (Set_xticks (Ax 1) [])) (\<lambda>_.
       andthen (emit (Set_yticks (Ax 1) [])) (\<lambda>_.
       andthen (emit Despine) (\<lambda>_.
       andthen (emit Add_subplot) (\<lambda>_.
       andthen (emit Tick_params) (\<lambda>_.
       andthen (emit (Xlabel Pyplot ''Dimension 1'')) (\<lambda>_.
       andthen (emit (Ylabel Pyplot ''Dimension 2'')) (\<lambda>_.
       andthen (lift (state_colors palette memberships)) (\<lambda>colors.
       ret (Some (colors, embedding)))))))))))))))))))))"

subsection \<open>\<^verbatim>\<open>plot_transition_model\<close>\<close>

text \<open>
  Lines 105 to 108: one \<^verbatim>\<open>plt.plot\<close> call for each \<open>i\<close> of \<^verbatim>\<open>range(1, m)\<close>, from
  row \<open>i - 1\<close> of the projected means to row \<open>i\<close>.
\<close>

definition draw_segment :: "points \<Rightarrow> nat \<Rightarrow> unit act" where
  "draw_segment interp_mean i =
     emit (Plot Pyplot [fst (interp_mean ! (i - 1)), fst (interp_mean ! i)]
                       [snd (interp_mean ! (i - 1)), snd (interp_mean ! i)] 3)"

definition draw_path :: "points \<Rightarrow> unit act" where
  "draw_path interp_mean = for_each (draw_segment interp_mean) [1..<shape0 interp_mean]"

text \<open>
  An omitted \<^verbatim>\<open>timepoints\<close> argument is \<open>None\<close> here and stands for the default of
  the signature.
\<close>

definition plot_transition_model ::
  "'f sklearn \<Rightarrow> matrix \<Rightarrow> transition_model \<Rightarrow> int option \<Rightarrow> 'f lle option \<Rightarrow> color \<Rightarrow>
   bool \<Rightarrow> real list option \<Rightarrow> kwargs \<Rightarrow> string \<Rightarrow> nat \<Rightarrow> 'f lle act" where
  "plot_transition_model lib data tm n_neighbors_arg embedding_arg colors plot_errors
       timepoints_arg scatter_plot_args error_cmap n_levels =
     andthen (lift (case timepoints_arg of None \<Rightarrow> default_timepoints | Some ts \<Rightarrow> Inr ts))
       (\<lambda>timepoints.
     andthen (resolve_embedding lib data n_neighbors_arg embedding_arg) (\<lambda>(embedding, transformed).
     let means = tm_mean tm timepoints in
     andthen (transform lib embedding means) (\<lambda>interp_mean.
     andthen (if plot_errors then
                let samples = sample_along_timepoints tm timepoints (shape0 data) interp_mean in
                andthen (transform lib embedding samples) (\<lambda>interp_samples.
                let X_kde = map fst interp_samples @ map fst transformed;
                    Y_kde = map snd interp_samples @ map snd transformed
                in emit (Kdeplot X_kde Y_kde n_levels error_cmap))
              else ret ()) (\<lambda>_.
     andthen (emit (Scatter Pyplot (map fst transformed) (map snd transformed) (Uniform colors)
                      None scatter_plot_args)) (\<lambda>_.
     andthen (emit (Scatter Pyplot (map fst interp_mean) (map snd interp_mean) (Uniform ''black'')
                      None [(''marker'', ''(5, 2)'')])) (\<lambda>_.
     andthen (draw_path interp_mean) (\<lambda>_.
     andthen (emit (Xlabel Pyplot ''Dimension 1'')) (\<lambda>_.
     andthen (emit (Ylabel Pyplot ''Dimension 2'')) (\<lambda>_.
     andthen (emit (Set_xticks Pyplot [])) (\<lambda>_.
     andthen (emit (Set_yticks Pyplot [])) (\<lambda>_.
     andthen (emit Despine) (\<lambda>_.
     ret embedding))))))))))))"

subsection \<open>\<^verbatim>\<open>plot_transition_clustermap\<close>\<close>

text \<open>
  scipy: the preprocessing of the gradient mode, the linkage of the pairwise distances
  under a metric, and the flat clusters cut from a linkage are parameters. \<open>'l\<close> is the
  type of linkage matrices.
\<close>

record 'l scipy =
  zscore_gradient :: "matrix \<Rightarrow> matrix"
  pdist_linkage :: "string \<Rightarrow> matrix \<Rightarrow> py_error + 'l"
  fcluster :: "'l \<Rightarrow> int \<Rightarrow> int list"

text \<open>
  \<^verbatim>\<open>gene_clusters[k].append(v)\<close> on a \<^verbatim>\<open>defaultdict(list)\<close>: a key that is not there
  yet is entered with the empty list first. The dictionary is the list of its items.
\<close>

fun dd_append :: "('k \<times> 'v list) list \<Rightarrow> 'k \<Rightarrow> 'v \<Rightarrow> ('k \<times> 'v list) list" where
  "dd_append [] k v = [(k, [v])]"
| "dd_append ((k', vs) # d) k v =
     (if k' = k then (k', vs @ [v]) # d else (k', vs) # dd_append d k v)"

text \<open>Lines 153 to 155, over the pairs of \<^verbatim>\<open>enumerate(assignments)\<close>.\<close>

fun group_genes ::
  "(int \<rightharpoonup> color) \<Rightarrow> string list \<Rightarrow> (nat \<times> int) list \<Rightarrow> (color \<times> string list) list \<Rightarrow>
   py_error + (color \<times> string list) list" where
  "group_genes palette gene_names [] gene_clusters = Inr gene_clusters"
| "group_genes palette gene_names ((i, cl) # rest) gene_clusters =
     (case py_lookup palette cl of
        Inl e \<Rightarrow> Inl e
      | Inr c \<Rightarrow>
          (case py_getitem gene_names (int i) of
             Inl e \<Rightarrow> Inl e
           | Inr g \<Rightarrow> group_genes palette gene_names rest (dd_append gene_clusters c g)))"

text \<open>Lines 131 to 140: the matrix to plot, the \<^verbatim>\<open>standard_scale\<close> argument and the row linkage.\<close>

definition cluster_input ::
  "'l scipy \<Rightarrow> matrix \<Rightarrow> bool \<Rightarrow> py_error + (matrix \<times> nat option \<times> 'l)" where
  "cluster_input lib data_array gradient =
     (if gradient then
        let data_to_plot = zscore_gradient lib data_array in
        (case pdist_linkage lib ''seuclidean'' (map (map abs) data_to_plot) of
           Inl e \<Rightarrow> Inl e
         | Inr row_linkage \<Rightarrow> Inr (data_to_plot, None, row_linkage))
      else
        let data_to_plot = transpose data_array in
        (case pdist_linkage lib ''correlation'' data_to_plot of
           Inl e \<Rightarrow> Inl e
         | Inr row_linkage \<Rightarrow> Inr (data_to_plot, Some 0, row_linkage)))"

definition plot_transition_clustermap ::
  "'l scipy \<Rightarrow> (int \<rightharpoonup> color) \<Rightarrow> matrix \<Rightarrow> string list \<Rightarrow> real list \<Rightarrow> int \<Rightarrow> bool \<Rightarrow>
   (color \<times> string list) list act" where
  "plot_transition_clustermap lib palette data_array gene_names pseudotimes n_clusters gradient =
     andthen (lift (cluster_input lib data_array gradient)) (\<lambda>(data_to_plot, scale, row_linkage).
     let assignments = fcluster lib row_linkage n_clusters in
     andthen (lift (state_colors palette assignments)) (\<lambda>row_colors.
     andthen (emit (Clustermap data_to_plot scale gene_names row_colors)) (\<lambda>_.
     andthen (lift (clustermap_xticks (shape0 data_array))) (\<lambda>r.
     andthen (emit Setp_yticklabels) (\<lambda>_.
     andthen (emit (Set_xticks Heatmap (map real_of_int r))) (\<lambda>_.
     andthen (lift (np_take pseudotimes r)) (\<lambda>labels.
     andthen (emit (Set_xticklabels Heatmap labels)) (\<lambda>_.
     andthen (emit (Xlabel Heatmap ''Pseudotime'')) (\<lambda>_.
     andthen (emit (Ylabel Heatmap ''Gene'')) (\<lambda>_.
     lift (group_genes palette gene_names (enumerate 0 assignments) [])))))))))))"

subsection \<open>Reading a trace\<close>

text \<open>
  What the properties below observe of a trace: the data of every fit, and per drawing
  target the size arguments and the per-point colours of the scatter calls, the widths and
  end points of the plotted lines, and the tick positions and tick labels set.
\<close>

fun fit_of :: "call \<Rightarrow> matrix list" where
  "fit_of (LLE_fit_transform d) = [d]"
| "fit_of _ = []"

definition fit_calls :: "call list \<Rightarrow> matrix list" where
  "fit_calls tr = concat (map fit_of tr)"

fun sizes_of :: "target \<Rightarrow> call \<Rightarrow> real list list" where
  "sizes_of t (Scatter t' xs ys c (Some s) kw) = (if t' = t then [s] else [])"
| "sizes_of t _ = []"

definition scatter_sizes :: "target \<Rightarrow> call list \<Rightarrow> real list list" where
  "scatter_sizes t tr = concat (map (sizes_of t) tr)"

fun colors_of :: "target \<Rightarrow> call \<Rightarrow> color list list" where
  "colors_of t (Scatter t' xs ys (PerPoint c) s kw) = (if t' = t then [c] else [])"
| "colors_of t _ = []"

definition scatter_colors :: "target \<Rightarrow> call list \<Rightarrow> color list list" where
  "scatter_colors t tr = concat (map (colors_of t) tr)"

fun width_of :: "target \<Rightarrow> call \<Rightarrow> real list" where
  "width_of t (Plot t' xs ys w) = (if t' = t then [w] else [])"
| "width_of t _ = []"

definition plot_widths :: "target \<Rightarrow> call list \<Rightarrow> real list" where
  "plot_widths t tr = concat (map (width_of t) tr)"

fun segment_of :: "target \<Rightarrow> call \<Rightarrow> ((real \<times> real) \<times> (real \<times> real)) list" where
  "segment_of t (Plot t' [x1, x2] [y1, y2] w) = (if t' = t then [((x1, y1), (x2, y2))] else [])"
| "segment_of t _ = []"

definition plotted_segments :: "target \<Rightarrow> call list \<Rightarrow> ((real \<times> real) \<times> (real \<times> real)) list" where
  "plotted_segments t tr = concat (map (segment_of t) tr)"

fun xticks_of :: "target \<Rightarrow> call \<Rightarrow> real list list" where
  "xticks_of t (Set_xticks t' r) = (if t' = t then [r] else [])"
| "xticks_of t _ = []"

definition xticks_set :: "target \<Rightarrow> call list \<Rightarrow> real list list" where
  "xticks_set t tr = concat (map (xticks_of t) tr)"

fun xticklabels_of :: "target \<Rightarrow> call \<Rightarrow> real list list" where
  "xticklabels_of t (Set_xticklabels t' r) = (if t' = t then [r] else [])"
| "xticklabels_of t _ = []"

definition xticklabels_set :: "target \<Rightarrow> call list \<Rightarrow> real list list" where
  "xticklabels_set t tr = concat (map (xticklabels_of t) tr)"

text \<open>A computation with some calls made before it.\<close>

definition prepend :: "call list \<Rightarrow> 'a act \<Rightarrow> 'a act" where
  "prepend t m = (fst m, t @ snd m)"

subsection \<open>The claims in the words of the specification\<close>

text \<open>
  The specification's default grid, "100 evenly spaced points over [0,1)", and its default
  neighbour count, "round(0.8 * row_count)".
\<close>

definition spec_default_timepoints :: "real list" where
  "spec_default_timepoints = map (\<lambda>i. real i / 100) [0..<100]"

definition spec_n_neighbors :: "matrix \<Rightarrow> int" where
  "spec_n_neighbors data = round (0.8 * real (shape0 data))"

subsection \<open>A small instance\<close>

text \<open>
  Four observations in three dimensions, three of them in state 0 and one in state 1, and
  a projector that keeps the first two coordinates. Its fitted state is a number.
\<close>

definition ex_project :: "matrix \<Rightarrow> points" where
  "ex_project m = map (\<lambda>row. (row ! 0, row ! 1)) m"

definition ex_lib :: "nat sklearn" where
  "ex_lib = \<lparr>fit_transform_impl = (\<lambda>emb data. Inr (1, ex_project data)),
             transform_impl = (\<lambda>f data. Inr (ex_project data))\<rparr>"

definition ex_data :: matrix where
  "ex_data = [[0, 0, 1], [1, 0, 0], [2, 2, 1], [3, 2, 2]]"

definition ex_palette :: "int \<rightharpoonup> color" where
  "ex_palette = [0 \<mapsto> ''red'', 1 \<mapsto> ''blue'', 2 \<mapsto> ''green'']"

definition ex_state_model :: state_model where
  "ex_state_model = \<lparr>predict = (\<lambda>d. [0, 0, 0, 1]),
                     centroids = [0 \<mapsto> [[1, 0, 0]], 1 \<mapsto> [[3, 2, 2]], 2 \<mapsto> [[5, 5, 5]]]\<rparr>"

definition ex_graph :: graph where
  "ex_graph = \<lparr>state_model = ex_state_model,
               state_edges = [(\<lparr>index = 0\<rparr>, \<lparr>index = 1\<rparr>)],
               edge_weights = [((\<lparr>index = 0\<rparr>, \<lparr>index = 1\<rparr>), 1 / 4)]\<rparr>"

definition ex_embedding :: "nat lle" where
  "ex_embedding = \<lparr>n_components = 2, n_neighbors = 3, lle_meth = Modified, fitted = Some 7\<rparr>"

definition ex_transition_model :: transition_model where
  "ex_transition_model = \<lparr>tm_mean = (\<lambda>ts. map (\<lambda>t. [t * (1 - t), t, 0]) ts),
                          sample_along_timepoints = (\<lambda>ts n low. map (\<lambda>t. [t, t, t]) ts)\<rparr>"

definition ex_scipy :: "unit scipy" where
  "ex_scipy = \<lparr>zscore_gradient = (\<lambda>d. transpose d),
               pdist_linkage = (\<lambda>metric d. Inr ()),
               fcluster = (\<lambda>l k. [1, 2])\<rparr>"

text \<open>
  A series of \<open>n\<close> timepoints of two genes, with pseudotimes \<open>0, 1/n, ...\<close>; the
  stand-in for scipy puts the two genes in clusters 1 and 2.
\<close>

definition ex_series :: "nat \<Rightarrow> matrix" where
  "ex_series n = replicate n [0, 1]"

definition ex_pseudotimes :: "nat \<Rightarrow> real list" where
  "ex_pseudotimes n = map (\<lambda>i. real i / real n) [0..<n]"

definition ex_genes :: "string list" where
  "ex_genes = [''g1'', ''g2'']"

section \<open>Properties\<close>

subsection \<open>Sequencing and traces\<close>

lemma andthen_ret: "andthen (ret x) f = f x"
  by (simp add: andthen_def ret_def split: prod.split)

lemma andthen_lift_Inr: "andthen (lift (Inr x)) f = f x"
  by (simp add: andthen_def lift_def split: prod.split)

lemma andthen_lift_Inl: "andthen (lift (Inl e)) f = (Inl e, [])"
  by (simp add: andthen_def lift_def)

lemma andthen_emit: "andthen (emit c) f = prepend [c] (f ())"
  by (simp add: andthen_def emit_def prepend_def split: prod.split)

lemma andthen_prepend: "andthen (prepend t m) f = prepend t (andthen m f)"
  by (cases m; cases "fst m") (auto simp: andthen_def prepend_def split: prod.split sum.split)

lemma prepend_prepend: "prepend t (prepend u m) = prepend (t @ u) m"
  by (simp add: prepend_def)

lemma prepend_pair: "prepend t (r, u) = (r, t @ u)"
  by (simp add: prepend_def)

lemma prepend_ret: "prepend t (ret x) = (Inr x, t)"
  by (simp add: prepend_def ret_def)

lemma prepend_lift: "prepend t (lift r) = (r, t)"
  by (simp add: prepend_def lift_def)

lemma prepend_emit: "prepend t (emit c) = (Inr (), t @ [c])"
  by (simp add: prepend_def emit_def)

lemma prepend_eq_iff: "prepend t m = (r, tr) \<longleftrightarrow> (\<exists>u. m = (r, u) \<and> tr = t @ u)"
  by (cases m) (auto simp: prepend_def)

lemma andthen_eq_Inr_iff:
  "andthen m f = (Inr y, tr) \<longleftrightarrow> (\<exists>x t u. m = (Inr x, t) \<and> f x = (Inr y, u) \<and> tr = t @ u)"
  by (cases m; cases "fst m") (auto simp: andthen_def split: prod.split)

lemma lift_eq_iff: "lift r = (r', t) \<longleftrightarrow> r = r' \<and> t = []"
  by (auto simp: lift_def)

lemma ret_eq_iff: "ret x = (r, t) \<longleftrightarrow> r = Inr x \<and> t = []"
  by (auto simp: ret_def)

lemma emit_eq_iff: "emit c = (r, t) \<longleftrightarrow> r = Inr () \<and> t = [c]"
  by (auto simp: emit_def)

lemmas act_simps = andthen_ret andthen_lift_Inr andthen_lift_Inl andthen_emit andthen_prepend
  prepend_prepend prepend_eq_iff andthen_eq_Inr_iff lift_eq_iff ret_eq_iff emit_eq_iff

lemmas run_simps = andthen_ret andthen_lift_Inr andthen_lift_Inl andthen_emit andthen_prepend
  prepend_prepend prepend_pair prepend_ret prepend_lift prepend_emit

subsection \<open>The default timepoint grid\<close>

lemma default_timepoints_eq: "default_timepoints = Inr (map (\<lambda>i. real i * 0.02) [0..<50])"
  by (simp add: default_timepoints_def np_arange_def arange_len_def)

text \<open>
  Claim C1, as the code has it: when the caller omits the timepoint grid of the transition
  plotter, the grid is \<^verbatim>\<open>np.arange(0, 1, 0.02)\<close>, that is the 50 evenly spaced timepoints
  \<open>0, 0.02, ..., 0.98\<close> of the half-open interval from 0 to 1, and calling the plotter
  without a grid is calling it with this one.
\<close>

theorem C1_default_grid:
  "default_timepoints = Inr (map (\<lambda>i. real i * 0.02) [0..<50])
   \<and> length (projr default_timepoints) = 50
   \<and> list_all (\<lambda>t. 0 \<le> t \<and> t < 1) (projr default_timepoints)
   \<and> plot_transition_model lib data tm nn emb colors pe None args cmap nl
     = plot_transition_model lib data tm nn emb colors pe
         (Some (map (\<lambda>i. real i * 0.02) [0..<50])) args cmap nl"
proof -
  have "list_all (\<lambda>t. 0 \<le> t \<and> t < 1) (map (\<lambda>i. real i * 0.02) [0..<50])"
    by (auto simp: list_all_iff)
  then show ?thesis
    by (simp add: default_timepoints_eq plot_transition_model_def)
qed

text \<open>
  The grid of the specification has 100 points; the default of the code has 50, so it is
  not that grid.
\<close>

theorem C1_default_grid_counterexample:
  "length (projr default_timepoints) \<noteq> 100 \<and> default_timepoints \<noteq> Inr spec_default_timepoints"
proof -
  have len: "length (projr default_timepoints) = 50"
    by (simp add: default_timepoints_eq)
  have spec_len: "length spec_default_timepoints = 100"
    by (simp add: spec_default_timepoints_def)
  have "default_timepoints \<noteq> Inr spec_default_timepoints"
  proof
    assume a: "default_timepoints = Inr spec_default_timepoints"
    have "projr default_timepoints = spec_default_timepoints"
      by (subst a) (rule sum.sel)
    with len spec_len show False
      by simp
  qed
  with len show ?thesis
    by simp
qed

subsection \<open>The default neighbour count\<close>

text \<open>
  Claim C2, as the code has it: for every data matrix, when \<^verbatim>\<open>n_neighbors\<close> is omitted,
  the embedding selector configures the projector with the neighbour count
  \<^verbatim>\<open>int(0.8 * row_count)\<close>, which is 80 percent of the observation count rounded down,
  \<open>4 * row_count div 5\<close>.
\<close>

theorem C2_default_neighbors:
  "n_neighbors (choose_2d_embedding data None) = \<lfloor>0.8 * real (shape0 data)\<rfloor>
   \<and> n_neighbors (choose_2d_embedding data None) = (4 * int (shape0 data)) div 5"
proof -
  have "\<lfloor>0.8 * real (shape0 data)\<rfloor> = \<lfloor>real_of_int (4 * int (shape0 data)) / real_of_int 5\<rfloor>"
    by simp
  also have "\<dots> = (4 * int (shape0 data)) div 5"
    by (simp only: floor_divide_of_int_eq)
  finally show ?thesis
    by (simp add: choose_2d_embedding_def py_int_def Let_def mult.commute)
qed

text \<open>
  With two rows the selector takes 1 neighbour (\<^verbatim>\<open>int(1.6)\<close>), where rounding 1.6 gives 2.
\<close>

theorem C2_default_neighbors_counterexample:
  "n_neighbors (choose_2d_embedding [[0], [0]] None) \<noteq> spec_n_neighbors [[0], [0]]"
  by (simp add: choose_2d_embedding_def spec_n_neighbors_def py_int_def shape0_def round_def)

subsection \<open>Tick positions of the pseudotime clustermap\<close>

lemma xticks_small: "rows < 10 \<Longrightarrow> clustermap_xticks rows = Inl ZeroDivisionError"
  by (simp add: clustermap_xticks_def np_arange_int_def)

lemma xticks_eq:
  "10 \<le> rows \<Longrightarrow>
   clustermap_xticks rows =
     Inr (map (\<lambda>i. 10 + int i * (int rows div 10))
            [0..<arange_len 10 (real rows) (real (rows div 10))])"
proof -
  assume "10 \<le> rows"
  then have "int rows div 10 \<noteq> 0" by simp
  moreover have "real_of_int (int rows div 10) = real (rows div 10)"
    by (metis of_int_of_nat_eq of_nat_numeral zdiv_int)
  ultimately show ?thesis
    by (simp add: clustermap_xticks_def np_arange_int_def)
qed

lemma xticks_count:
  assumes "10 \<le> rows"
  shows "arange_len 10 (real rows) (real (rows div 10)) \<le> 10"
    and "arange_len 10 (real rows) (real (rows div 10)) = 10 \<longleftrightarrow> 10 < rows div 10 + rows mod 10"
proof -
  define q where "q = rows div 10"
  define r where "r = rows mod 10"
  have rows: "rows = 10 * q + r" and r: "r < 10"
    by (simp_all add: q_def r_def)
  have q: "0 < q" using assms by (simp add: q_def)
  define x where "x = (real rows - 10) / real q"
  have x_le: "x \<le> 10"
  proof -
    have "real rows - 10 \<le> 10 * real q" using rows r by simp
    then show ?thesis using q by (simp add: x_def pos_divide_le_eq)
  qed
  have x_gt: "9 < x \<longleftrightarrow> 10 < q + r"
  proof -
    have "9 < x \<longleftrightarrow> 9 * real q < real rows - 10"
      using q by (simp add: x_def pos_less_divide_eq)
    also have "\<dots> \<longleftrightarrow> 9 * real q + 10 < real (10 * q + r)"
      using rows by (simp add: less_diff_eq)
    also have "\<dots> \<longleftrightarrow> real (9 * q + 10) < real (10 * q + r)"
      by simp
    also have "\<dots> \<longleftrightarrow> 9 * q + 10 < 10 * q + r"
      by (simp only: of_nat_less_iff)
    also have "\<dots> \<longleftrightarrow> 10 < q + r"
      by arith
    finally show ?thesis .
  qed
  have len: "arange_len 10 (real rows) (real (rows div 10)) = nat \<lceil>x\<rceil>"
    by (simp add: arange_len_def x_def q_def)
  have c_le: "\<lceil>x\<rceil> \<le> 10" using x_le by (simp add: ceiling_le_iff)
  show "arange_len 10 (real rows) (real (rows div 10)) \<le> 10"
    using c_le by (simp add: len)
  have "nat \<lceil>x\<rceil> = 10 \<longleftrightarrow> \<lceil>x\<rceil> = 10" by auto
  also have "\<dots> \<longleftrightarrow> 9 < x"
    using c_le by (auto simp: less_ceiling_iff ceiling_eq_iff) 
  finally show "arange_len 10 (real rows) (real (rows div 10)) = 10 \<longleftrightarrow> 10 < rows div 10 + rows mod 10"
    using x_gt by (simp add: len q_def r_def)
qed

subsection \<open>Comprehensions and index lookups\<close>

lemma map_result_Inr_iff:
  "map_result f xs = Inr ys \<longleftrightarrow> map f xs = map Inr ys"
proof (induction xs arbitrary: ys)
  case Nil
  then show ?case by auto
next
  case (Cons x xs)
  show ?case
  proof (cases "f x")
    case (Inl e)
    then show ?thesis by (cases ys) auto
  next
    case fx: (Inr y)
    show ?thesis
    proof (cases "map_result f xs")
      case (Inl e)
      then have "map f xs \<noteq> map Inr zs" for zs
        using Cons.IH [of zs] by simp
      with fx Inl show ?thesis by (cases ys) auto
    next
      case (Inr zs)
      then have "map f xs = map Inr zs"
        using Cons.IH [of zs] by simp
      with fx Inr show ?thesis by (cases ys) (auto simp: inj_map_eq_map)
    qed
  qed
qed

lemma map_result_length: "map_result f xs = Inr ys \<Longrightarrow> length ys = length xs"
  by (metis length_map map_result_Inr_iff)

lemma map_result_nth:
  "map_result f xs = Inr ys \<Longrightarrow> i < length xs \<Longrightarrow> f (xs ! i) = Inr (ys ! i)"
  by (metis length_map map_result_Inr_iff nth_map)

lemma py_getitem_int:
  "py_getitem xs (int k) = Inr y \<longleftrightarrow> k < length xs \<and> y = xs ! k"
  by (auto simp: py_getitem_def)

subsection \<open>The run of the pseudotime clustermap\<close>

lemma clustermap_success:
  assumes "plot_transition_clustermap lib palette data_array gene_names pseudotimes n_clusters gradient
             = (Inr gc, tr)"
  shows "\<exists>data_to_plot scale row_linkage row_colors r labels.
     cluster_input lib data_array gradient = Inr (data_to_plot, scale, row_linkage) \<and>
     state_colors palette (fcluster lib row_linkage n_clusters) = Inr row_colors \<and>
     clustermap_xticks (shape0 data_array) = Inr r \<and>
     np_take pseudotimes r = Inr labels \<and>
     group_genes palette gene_names (enumerate 0 (fcluster lib row_linkage n_clusters)) [] = Inr gc \<and>
     tr = [Clustermap data_to_plot scale gene_names row_colors, Setp_yticklabels,
           Set_xticks Heatmap (map real_of_int r), Set_xticklabels Heatmap labels,
           Xlabel Heatmap ''Pseudotime'', Ylabel Heatmap ''Gene'']"
  using assms
  unfolding plot_transition_clustermap_def Let_def
  by (auto simp: act_simps split: prod.splits)

text \<open>
  Claim C3, as the code has it: when the pseudotime clustermap routine returns, the data
  array has \<open>n \<ge> 10\<close> rows and the heatmap x-axis is relabelled with the pseudotime
  values at the evenly spaced column positions \<open>10, 10 + s, 10 + 2s, ...\<close> below \<open>n\<close>,
  where \<open>s = n div 10\<close> (Python 2 division). These are \<open>ceil((n - 10) / s)\<close> positions:
  never more than 10, and exactly 10 only if \<open>n div 10 + n mod 10 > 10\<close>.
\<close>

theorem C3_xtick_positions:
  assumes "plot_transition_clustermap lib palette data_array gene_names pseudotimes n_clusters gradient
             = (Inr gc, tr)"
  shows "10 \<le> shape0 data_array
     \<and> xticks_set Heatmap tr =
         [map (\<lambda>i. real (10 + i * (shape0 data_array div 10)))
            [0..<arange_len 10 (real (shape0 data_array)) (real (shape0 data_array div 10))]]
     \<and> xticklabels_set Heatmap tr =
         [map (\<lambda>i. pseudotimes ! (10 + i * (shape0 data_array div 10)))
            [0..<arange_len 10 (real (shape0 data_array)) (real (shape0 data_array div 10))]]
     \<and> (\<forall>i < arange_len 10 (real (shape0 data_array)) (real (shape0 data_array div 10)).
           10 + i * (shape0 data_array div 10) < length pseudotimes)
     \<and> arange_len 10 (real (shape0 data_array)) (real (shape0 data_array div 10)) \<le> 10
     \<and> (arange_len 10 (real (shape0 data_array)) (real (shape0 data_array div 10)) = 10
          \<longleftrightarrow> 10 < shape0 data_array div 10 + shape0 data_array mod 10)"
proof -
  define n where "n = shape0 data_array"
  define c where "c = arange_len 10 (real n) (real (n div 10))"
  from clustermap_success [OF assms] obtain data_to_plot scale row_linkage row_colors r labels
    where r: "clustermap_xticks n = Inr r"
      and labels: "np_take pseudotimes r = Inr labels"
      and tr: "tr = [Clustermap data_to_plot scale gene_names row_colors, Setp_yticklabels,
           Set_xticks Heatmap (map real_of_int r), Set_xticklabels Heatmap labels,
           Xlabel Heatmap ''Pseudotime'', Ylabel Heatmap ''Gene'']"
    unfolding n_def by blast
  have n: "10 \<le> n"
  proof (rule ccontr)
    assume "\<not> 10 \<le> n"
    then have "clustermap_xticks n = Inl ZeroDivisionError"
      by (simp add: xticks_small)
    with r show False by simp
  qed
  have r_eq: "r = map (\<lambda>i. 10 + int i * (int n div 10)) [0..<c]"
    using r xticks_eq [OF n] by (simp add: c_def)
  have r_int: "r = map (\<lambda>i. int (10 + i * (n div 10))) [0..<c]"
    by (simp add: r_eq zdiv_int)
  have ticks: "map real_of_int r = map (\<lambda>i. real (10 + i * (n div 10))) [0..<c]"
    by (simp add: r_int)
  have len: "length labels = c"
    using map_result_length [OF labels [unfolded np_take_def]] by (simp add: r_eq)
  have each: "10 + i * (n div 10) < length pseudotimes
        \<and> labels ! i = pseudotimes ! (10 + i * (n div 10))" if "i < c" for i
  proof -
    have "py_getitem pseudotimes (r ! i) = Inr (labels ! i)"
      using map_result_nth [OF labels [unfolded np_take_def]] that by (simp add: r_eq)
    moreover have "r ! i = int (10 + i * (n div 10))"
      using that by (simp add: r_int)
    ultimately have "py_getitem pseudotimes (int (10 + i * (n div 10))) = Inr (labels ! i)"
      by (simp only:)
    then show ?thesis
      by (simp only: py_getitem_int)
  qed
  have lab: "labels = map (\<lambda>i. pseudotimes ! (10 + i * (n div 10))) [0..<c]"
    by (rule nth_equalityI) (simp_all add: len each)
  show ?thesis
    unfolding n_def [symmetric] c_def [symmetric]
    using n each xticks_count [OF n]
    by (simp add: tr xticks_set_def xticklabels_set_def ticks lab c_def)
qed

text \<open>With 29 rows the step is 2 and there are ten positions, 10 to 28.\<close>

theorem C3_xtick_positions_witness:
  "fst (plot_transition_clustermap ex_scipy ex_palette (ex_series 29) ex_genes
          (ex_pseudotimes 29) 10 False) = Inr [(''blue'', [''g1'']), (''green'', [''g2''])]
   \<and> xticks_set Heatmap (snd (plot_transition_clustermap ex_scipy ex_palette (ex_series 29)
          ex_genes (ex_pseudotimes 29) 10 False))
       = [[10, 12, 14, 16, 18, 20, 22, 24, 26, 28]]
   \<and> arange_len 10 (real (shape0 (ex_series 29))) (real (shape0 (ex_series 29) div 10)) = 10"
proof -
  let ?run = "plot_transition_clustermap ex_scipy ex_palette (ex_series 29) ex_genes
                (ex_pseudotimes 29) 10 False"
  have res: "fst ?run = Inr [(''blue'', [''g1'']), (''green'', [''g2''])]"
    by code_simp
  then have run: "?run = (Inr [(''blue'', [''g1'']), (''green'', [''g2''])], snd ?run)"
    by (simp add: prod_eq_iff)
  have rows: "shape0 (ex_series 29) = 29"
    by (simp add: shape0_def ex_series_def)
  have "10 < shape0 (ex_series 29) div 10 + shape0 (ex_series 29) mod 10"
    by (simp add: rows)
  with C3_xtick_positions [OF run]
  have len: "arange_len 10 (real (shape0 (ex_series 29))) (real (shape0 (ex_series 29) div 10)) = 10"
    and ticks: "xticks_set Heatmap (snd ?run) =
         [map (\<lambda>i. real (10 + i * (shape0 (ex_series 29) div 10)))
            [0..<arange_len 10 (real (shape0 (ex_series 29))) (real (shape0 (ex_series 29) div 10))]]"
    by simp_all
  have "map (\<lambda>i. real (10 + i * (29 div 10))) [0..<10] = [10, 12, 14, 16, 18, 20, 22, 24, 26, 28]"
    by code_simp
  moreover have "arange_len 10 (real 29) (real (29 div 10)) = 10"
    using len by (simp only: rows)
  ultimately have "xticks_set Heatmap (snd ?run) = [[10, 12, 14, 16, 18, 20, 22, 24, 26, 28]]"
    using ticks by (simp only: rows)
  with res len show ?thesis
    by simp
qed

text \<open>
  With 100 rows the positions are 10, 20, ..., 90: nine labels, not ten.
\<close>

theorem C3_xtick_positions_counterexample:
  "xticks_set Heatmap (snd (plot_transition_clustermap ex_scipy ex_palette (ex_series 100)
      ex_genes (ex_pseudotimes 100) 10 False)) = [[10, 20, 30, 40, 50, 60, 70, 80, 90]]
   \<and> xticklabels_set Heatmap (snd (plot_transition_clustermap ex_scipy ex_palette (ex_series 100)
      ex_genes (ex_pseudotimes 100) 10 False))
      = [[0.1, 0.2, 0.3, 0.4, 0.5, 0.6, 0.7, 0.8, 0.9]]"
  by code_simp

subsection \<open>The gene clusters returned by the pseudotime clustermap\<close>

lemma dd_append_keys: "fst ` set (dd_append d k v) = insert k (fst ` set d)"
  by (induction d k v rule: dd_append.induct) auto

lemma dd_append_distinct_keys:
  "distinct (map fst d) \<Longrightarrow> distinct (map fst (dd_append d k v))"
  by (induction d k v rule: dd_append.induct) (auto simp: dd_append_keys)

lemma dd_append_values:
  "(\<Union>x\<in>set (dd_append d k v). set (snd x)) = insert v (\<Union>x\<in>set d. set (snd x))"
  by (induction d k v rule: dd_append.induct) auto

lemma dd_append_members:
  "set (concat (map snd (dd_append d k v))) = insert v (set (concat (map snd d)))"
  using dd_append_values [of d k v] by simp

lemma dd_append_distinct_members:
  "distinct (concat (map snd d)) \<Longrightarrow> v \<notin> set (concat (map snd d)) \<Longrightarrow>
   distinct (concat (map snd (dd_append d k v)))"
proof (induction d k v rule: dd_append.induct)
  case (1 k v)
  then show ?case by simp
next
  case (2 k' vs d k v)
  show ?case
  proof (cases "k' = k")
    case True
    with 2 show ?thesis by auto
  next
    case False
    with 2 have "distinct (concat (map snd (dd_append d k v)))"
      by simp
    moreover have "set vs \<inter> set (concat (map snd (dd_append d k v))) = {}"
      using "2.prems" unfolding dd_append_members by auto
    ultimately show ?thesis
      using False "2.prems" by simp
  qed
qed

lemma one_list_per_member:
  "distinct (concat (map snd d)) \<Longrightarrow> (c1, vs1) \<in> set d \<Longrightarrow> (c2, vs2) \<in> set d \<Longrightarrow>
   g \<in> set vs1 \<Longrightarrow> g \<in> set vs2 \<Longrightarrow> distinct (map fst d) \<Longrightarrow> c1 = c2"
  by (induction d) (auto, (force+)?)

lemma group_genes_keys:
  "group_genes palette names (enumerate k as) acc = Inr gc \<Longrightarrow>
   fst ` set gc = fst ` set acc \<union> {c. \<exists>cl \<in> set as. palette cl = Some c}"
proof (induction as arbitrary: k acc)
  case Nil
  then show ?case by simp
next
  case (Cons a as)
  from Cons.prems obtain c g where c: "palette a = Some c"
    and rest: "group_genes palette names (enumerate (Suc k) as) (dd_append acc c g) = Inr gc"
    by (auto simp: py_lookup_def split: option.splits sum.splits)
  from Cons.IH [OF rest] c show ?case
    by (auto simp: dd_append_keys)
qed

lemma group_genes_distinct_keys:
  "group_genes palette names (enumerate k as) acc = Inr gc \<Longrightarrow> distinct (map fst acc) \<Longrightarrow>
   distinct (map fst gc)"
proof (induction as arbitrary: k acc)
  case Nil
  then show ?case by simp
next
  case (Cons a as)
  from Cons.prems obtain c g
    where rest: "group_genes palette names (enumerate (Suc k) as) (dd_append acc c g) = Inr gc"
    by (auto simp: py_lookup_def split: option.splits sum.splits)
  from Cons.IH [OF rest] Cons.prems(2) show ?case
    by (simp add: dd_append_distinct_keys)
qed

lemma group_genes_bound:
  "group_genes palette names (enumerate k as) acc = Inr gc \<Longrightarrow> k + length as \<le> max k (length names)"
proof (induction as arbitrary: k acc)
  case Nil
  then show ?case by simp
next
  case (Cons a as)
  from Cons.prems obtain c where k: "k < length names"
    and rest: "group_genes palette names (enumerate (Suc k) as) (dd_append acc c (names ! k)) = Inr gc"
    by (auto simp: py_lookup_def py_getitem_int split: option.splits sum.splits)
  from Cons.IH [OF rest] k show ?case
    by simp
qed

lemma group_genes_members:
  "group_genes palette names (enumerate k as) acc = Inr gc \<Longrightarrow>
   set (concat (map snd gc)) = set (concat (map snd acc)) \<union> (\<lambda>i. names ! i) ` {k..<k + length as}"
proof (induction as arbitrary: k acc)
  case Nil
  then show ?case by simp
next
  case (Cons a as)
  from Cons.prems obtain c where k: "k < length names"
    and rest: "group_genes palette names (enumerate (Suc k) as) (dd_append acc c (names ! k)) = Inr gc"
    by (auto simp: py_lookup_def py_getitem_int split: option.splits sum.splits)
  have "{k..<k + length (a # as)} = insert k {Suc k..<Suc k + length as}"
    by auto
  with Cons.IH [OF rest] show ?case
    unfolding dd_append_members by auto
qed

lemma group_genes_distinct_members:
  "group_genes palette names (enumerate k as) acc = Inr gc \<Longrightarrow> distinct names \<Longrightarrow>
   distinct (concat (map snd acc)) \<Longrightarrow>
   set (concat (map snd acc)) \<inter> (\<lambda>i. names ! i) ` {k..<k + length as} = {} \<Longrightarrow>
   distinct (concat (map snd gc))"
proof (induction as arbitrary: k acc)
  case Nil
  then show ?case by simp
next
  case (Cons a as)
  from Cons.prems(1) obtain c where k: "k < length names"
    and rest: "group_genes palette names (enumerate (Suc k) as) (dd_append acc c (names ! k)) = Inr gc"
    by (auto simp: py_lookup_def py_getitem_int split: option.splits sum.splits)
  have bound: "Suc k + length as \<le> length names"
    using group_genes_bound [OF rest] k by simp
  have fresh: "names ! k \<notin> set (concat (map snd acc))"
    using Cons.prems(4) by auto
  have later: "names ! k \<notin> (\<lambda>i. names ! i) ` {Suc k..<Suc k + length as}"
  proof
    assume "names ! k \<in> (\<lambda>i. names ! i) ` {Suc k..<Suc k + length as}"
    then obtain i where "Suc k \<le> i" "i < Suc k + length as" "names ! k = names ! i"
      by auto
    with bound k \<open>distinct names\<close> show False
      by (simp add: nth_eq_iff_index_eq)
  qed
  have "set (concat (map snd (dd_append acc c (names ! k))))
          \<inter> (\<lambda>i. names ! i) ` {Suc k..<Suc k + length as} = {}"
    using Cons.prems(4) later unfolding dd_append_members by auto
  with Cons.IH [OF rest \<open>distinct names\<close>] fresh Cons.prems(3) show ?case
    by (simp add: dd_append_distinct_members)
qed

text \<open>
  Claim C6, as the code has it: when the pseudotime clustermap routine returns, the keys of
  the returned mapping are exactly the palette colours of the flat-cluster assignments,
  each key once; and if the gene names are pairwise distinct and there are as many of them
  as assignments, every gene name is in the value list of exactly one key.
\<close>

theorem C6_gene_clusters:
  assumes "plot_transition_clustermap lib palette data_array gene_names pseudotimes n_clusters gradient
             = (Inr gene_clusters, tr)"
    and "cluster_input lib data_array gradient = Inr (data_to_plot, scale, row_linkage)"
  shows "fst ` set gene_clusters
           = {c. \<exists>cl \<in> set (fcluster lib row_linkage n_clusters). palette cl = Some c}
     \<and> distinct (map fst gene_clusters)
     \<and> (distinct gene_names \<and> length gene_names = length (fcluster lib row_linkage n_clusters)
          \<longrightarrow> (\<forall>g \<in> set gene_names. \<exists>!c. \<exists>vs. (c, vs) \<in> set gene_clusters \<and> g \<in> set vs))"
proof -
  let ?as = "fcluster lib row_linkage n_clusters"
  from clustermap_success [OF assms(1)] assms(2)
  have gg: "group_genes palette gene_names (enumerate 0 ?as) [] = Inr gene_clusters"
    by auto
  have keys: "fst ` set gene_clusters = {c. \<exists>cl \<in> set ?as. palette cl = Some c}"
    using group_genes_keys [OF gg] by simp
  have dk: "distinct (map fst gene_clusters)"
    using group_genes_distinct_keys [OF gg] by simp
  have one: "\<exists>!c. \<exists>vs. (c, vs) \<in> set gene_clusters \<and> g \<in> set vs"
    if d: "distinct gene_names" and l: "length gene_names = length ?as" and g: "g \<in> set gene_names"
    for g
  proof -
    have members: "set (concat (map snd gene_clusters)) = set gene_names"
    proof -
      have "set (concat (map snd gene_clusters)) = (\<lambda>i. gene_names ! i) ` {0..<length gene_names}"
        using group_genes_members [OF gg] l by simp
      also have "\<dots> = set gene_names"
        by (metis atLeast_upt list.set_map map_nth set_upt)
      finally show ?thesis .
    qed
    have dm: "distinct (concat (map snd gene_clusters))"
      using group_genes_distinct_members [OF gg d] by simp
    from g members obtain c vs where in_c: "(c, vs) \<in> set gene_clusters" "g \<in> set vs"
      by fastforce
    show ?thesis
    proof (rule ex1I [of _ c])
      show "\<exists>vs. (c, vs) \<in> set gene_clusters \<and> g \<in> set vs"
        using in_c by blast
    next
      fix c'
      assume "\<exists>vs. (c', vs) \<in> set gene_clusters \<and> g \<in> set vs"
      then obtain vs' where "(c', vs') \<in> set gene_clusters" "g \<in> set vs'"
        by blast
      with one_list_per_member [OF dm _ _ _ _ dk] in_c show "c' = c"
        by blast
    qed
  qed
  from keys dk one show ?thesis
    by blast
qed

text \<open>Two genes with two names, in clusters 1 and 2.\<close>

theorem C6_gene_clusters_witness:
  "fst (plot_transition_clustermap ex_scipy ex_palette (ex_series 10) ex_genes
          (ex_pseudotimes 10) 10 False) = Inr [(''blue'', [''g1'']), (''green'', [''g2''])]
   \<and> cluster_input ex_scipy (ex_series 10) False = Inr (transpose (ex_series 10), Some 0, ())
   \<and> distinct ex_genes \<and> length ex_genes = length (fcluster ex_scipy () 10)
   \<and> (\<exists>!c. \<exists>vs. (c, vs) \<in> set [(''blue'', [''g1'']), (''green'', [''g2''])] \<and> ''g1'' \<in> set vs)
   \<and> (\<exists>!c. \<exists>vs. (c, vs) \<in> set [(''blue'', [''g1'']), (''green'', [''g2''])] \<and> ''g2'' \<in> set vs)"
proof -
  let ?run = "plot_transition_clustermap ex_scipy ex_palette (ex_series 10) ex_genes
                (ex_pseudotimes 10) 10 False"
  have res: "fst ?run = Inr [(''blue'', [''g1'']), (''green'', [''g2''])]"
    by code_simp
  then have run: "?run = (Inr [(''blue'', [''g1'']), (''green'', [''g2''])], snd ?run)"
    by (simp add: prod_eq_iff)
  have ci: "cluster_input ex_scipy (ex_series 10) False = Inr (transpose (ex_series 10), Some 0, ())"
    by (simp add: cluster_input_def ex_scipy_def)
  have hyp: "distinct ex_genes \<and> length ex_genes = length (fcluster ex_scipy () 10)"
    by (simp add: ex_genes_def ex_scipy_def)
  have genes: "''g1'' \<in> set ex_genes" "''g2'' \<in> set ex_genes"
    by (simp_all add: ex_genes_def)
  from C6_gene_clusters [OF run ci] hyp
  have "\<forall>g \<in> set ex_genes.
          \<exists>!c. \<exists>vs. (c, vs) \<in> set [(''blue'', [''g1'']), (''green'', [''g2''])] \<and> g \<in> set vs"
    by blast
  with genes res ci hyp show ?thesis
    by blast
qed

text \<open>
  The same two genes under one name: the name is in the value lists of both colours.
\<close>

theorem C6_gene_clusters_counterexample:
  "fst (plot_transition_clustermap ex_scipy ex_palette (ex_series 10) [''g'', ''g'']
          (ex_pseudotimes 10) 10 False) = Inr [(''blue'', [''g'']), (''green'', [''g''])]"
  by code_simp

subsection \<open>The embedding object and the run of the transition plotter\<close>

lemma transform_eq_iff:
  "transform lib emb d = (r, t) \<longleftrightarrow>
     t = [LLE_transform d] \<and>
     (case fitted emb of None \<Rightarrow> Inl NotFittedError | Some f \<Rightarrow> transform_impl lib f d) = r"
  by (auto simp: transform_def run_simps split: option.splits)

lemma fit_transform_eq_Inr_iff:
  "fit_transform lib emb d = (Inr (e, pts), t) \<longleftrightarrow>
     t = [LLE_fit_transform d] \<and>
     (\<exists>f. fit_transform_impl lib emb d = Inr (f, pts) \<and> e = emb\<lparr>fitted := Some f\<rparr>)"
  by (auto simp: fit_transform_def run_simps split: sum.splits)

lemma resolve_embedding_eq_Inr_iff:
  "resolve_embedding lib data nn emb = (Inr (e, transformed), t) \<longleftrightarrow>
     (case emb of
        None \<Rightarrow> t = [LLE_fit_transform data] \<and>
           (\<exists>f. fit_transform_impl lib (choose_2d_embedding data nn) data = Inr (f, transformed)
               \<and> e = (choose_2d_embedding data nn)\<lparr>fitted := Some f\<rparr>)
      | Some e0 \<Rightarrow> t = [LLE_transform data] \<and> e = e0 \<and>
           (\<exists>f. fitted e0 = Some f \<and> transform_impl lib f data = Inr transformed))"
  by (auto simp: resolve_embedding_def fit_transform_eq_Inr_iff transform_eq_iff act_simps
      split: option.splits)

lemma andthen_Inr_pair: "andthen (Inr x, t) f = prepend t (f x)"
  by (simp add: andthen_def prepend_def split: prod.split)

lemma andthen_Inl_pair: "andthen (Inl e, t) f = (Inl e, t)"
  by (simp add: andthen_def)

lemma map_act_emit: "map_act (\<lambda>x. emit (g x)) xs = (Inr (map (\<lambda>_. ()) xs), map g xs)"
  by (induction xs) (simp_all add: run_simps andthen_Inr_pair ret_def)

lemma for_each_emit: "for_each (\<lambda>x. emit (g x)) xs = (Inr (), map g xs)"
  by (simp add: for_each_def map_act_emit andthen_def ret_def)

lemma draw_path_eq:
  "draw_path interp_mean =
     (Inr (), map (\<lambda>i. Plot Pyplot [fst (interp_mean ! (i - 1)), fst (interp_mean ! i)]
                                  [snd (interp_mean ! (i - 1)), snd (interp_mean ! i)] 3)
                [1..<length interp_mean])"
  unfolding draw_path_def draw_segment_def shape0_def by (rule for_each_emit)

lemma transition_success:
  assumes "plot_transition_model lib data tm nn emb colors pe tps args cmap nl = (Inr e, tr)"
  shows "\<exists>timepoints transformed t0 f interp_mean tk.
     (case tps of None \<Rightarrow> default_timepoints | Some ts \<Rightarrow> Inr ts) = Inr timepoints \<and>
     resolve_embedding lib data nn emb = (Inr (e, transformed), t0) \<and>
     fitted e = Some f \<and>
     transform_impl lib f (tm_mean tm timepoints) = Inr interp_mean \<and>
     (if pe then \<exists>interp_samples.
          transform_impl lib f (sample_along_timepoints tm timepoints (shape0 data) interp_mean)
            = Inr interp_samples \<and>
          tk = [LLE_transform (sample_along_timepoints tm timepoints (shape0 data) interp_mean),
                Kdeplot (map fst interp_samples @ map fst transformed)
                        (map snd interp_samples @ map snd transformed) nl cmap]
      else tk = []) \<and>
     tr = t0 @ [LLE_transform (tm_mean tm timepoints)] @ tk @
          [Scatter Pyplot (map fst transformed) (map snd transformed) (Uniform colors) None args,
           Scatter Pyplot (map fst interp_mean) (map snd interp_mean) (Uniform ''black'') None
             [(''marker'', ''(5, 2)'')]] @
          snd (draw_path interp_mean) @
          [Xlabel Pyplot ''Dimension 1'', Ylabel Pyplot ''Dimension 2'',
           Set_xticks Pyplot [], Set_yticks Pyplot [], Despine]"
  using assms
  unfolding plot_transition_model_def Let_def
  by (auto simp: act_simps transform_eq_iff draw_path_eq split: prod.splits if_splits option.splits)

lemma resolve_embedding_trace:
  "resolve_embedding lib data nn emb = (Inr x, t) \<Longrightarrow>
   t = (case emb of None \<Rightarrow> [LLE_fit_transform data] | Some e0 \<Rightarrow> [LLE_transform data])"
  by (cases x) (auto simp: resolve_embedding_eq_Inr_iff split: option.splits)

lemma segments_of_path:
  "plotted_segments Pyplot
     (map (\<lambda>i. Plot Pyplot [fst (pm ! (i - 1)), fst (pm ! i)] [snd (pm ! (i - 1)), snd (pm ! i)] w) is)
   = map (\<lambda>i. (pm ! (i - 1), pm ! i)) is"
  by (induction "is") (simp_all add: plotted_segments_def)

text \<open>
  Claim C7: when the transition plotter returns, with \<open>interp_mean\<close> the projected mean
  trajectory of \<open>m\<close> positions, the lines it plots are exactly the \<open>m - 1\<close> segments
  from position \<open>i - 1\<close> to position \<open>i\<close>, for \<open>i\<close> from 1 to \<open>m - 1\<close> in this order:
  the order of the timepoints, whatever the positions are.
\<close>

theorem C7_path_segments:
  assumes "plot_transition_model lib data tm nn emb colors pe tps args cmap nl = (Inr e, tr)"
  shows "\<exists>timepoints f interp_mean.
     (case tps of None \<Rightarrow> default_timepoints | Some ts \<Rightarrow> Inr ts) = Inr timepoints
     \<and> fitted e = Some f
     \<and> transform_impl lib f (tm_mean tm timepoints) = Inr interp_mean
     \<and> plotted_segments Pyplot tr
         = map (\<lambda>i. (interp_mean ! (i - 1), interp_mean ! i)) [1..<length interp_mean]
     \<and> length (plotted_segments Pyplot tr) = length interp_mean - 1"
proof -
  from transition_success [OF assms] obtain timepoints transformed t0 f interp_mean tk
    where tps: "(case tps of None \<Rightarrow> default_timepoints | Some ts \<Rightarrow> Inr ts) = Inr timepoints"
      and res: "resolve_embedding lib data nn emb = (Inr (e, transformed), t0)"
      and f: "fitted e = Some f"
      and im: "transform_impl lib f (tm_mean tm timepoints) = Inr interp_mean"
      and tk: "if pe then \<exists>interp_samples.
          transform_impl lib f (sample_along_timepoints tm timepoints (shape0 data) interp_mean)
            = Inr interp_samples \<and>
          tk = [LLE_transform (sample_along_timepoints tm timepoints (shape0 data) interp_mean),
                Kdeplot (map fst interp_samples @ map fst transformed)
                        (map snd interp_samples @ map snd transformed) nl cmap]
        else tk = []"
      and tr: "tr = t0 @ [LLE_transform (tm_mean tm timepoints)] @ tk @
          [Scatter Pyplot (map fst transformed) (map snd transformed) (Uniform colors) None args,
           Scatter Pyplot (map fst interp_mean) (map snd interp_mean) (Uniform ''black'') None
             [(''marker'', ''(5, 2)'')]] @
          snd (draw_path interp_mean) @
          [Xlabel Pyplot ''Dimension 1'', Ylabel Pyplot ''Dimension 2'',
           Set_xticks Pyplot [], Set_yticks Pyplot [], Despine]"
    by blast
  have t0: "plotted_segments Pyplot t0 = []"
    using resolve_embedding_trace [OF res] by (simp add: plotted_segments_def split: option.splits)
  have tk0: "plotted_segments Pyplot tk = []"
    using tk by (auto simp: plotted_segments_def split: if_splits)
  have path: "plotted_segments Pyplot (snd (draw_path interp_mean))
      = map (\<lambda>i. (interp_mean ! (i - 1), interp_mean ! i)) [1..<length interp_mean]"
    by (simp only: draw_path_eq snd_conv segments_of_path)
  have split: "plotted_segments Pyplot (a @ b) = plotted_segments Pyplot a @ plotted_segments Pyplot b"
    for a b by (simp add: plotted_segments_def)
  have segs: "plotted_segments Pyplot tr
      = map (\<lambda>i. (interp_mean ! (i - 1), interp_mean ! i)) [1..<length interp_mean]"
    unfolding tr split t0 tk0 path by (simp add: plotted_segments_def)
  then have "length (plotted_segments Pyplot tr) = length interp_mean - 1"
    by simp
  with tps f im segs show ?thesis
    by blast
qed

text \<open>
  Three timepoints whose projected means go right and then back left: two segments, in
  the order of the timepoints.
\<close>

theorem C7_path_segments_witness:
  "fst (plot_transition_model ex_lib ex_data ex_transition_model None (Some ex_embedding)
          ''magenta'' True (Some [0, 1 / 2, 1]) [] ''Oranges'' 4) = Inr ex_embedding
   \<and> plotted_segments Pyplot (snd (plot_transition_model ex_lib ex_data ex_transition_model None
          (Some ex_embedding) ''magenta'' True (Some [0, 1 / 2, 1]) [] ''Oranges'' 4))
       = [((0, 0), (1 / 4, 1 / 2)), ((1 / 4, 1 / 2), (0, 1))]"
proof -
  let ?run = "plot_transition_model ex_lib ex_data ex_transition_model None (Some ex_embedding)
                ''magenta'' True (Some [0, 1 / 2, 1]) [] ''Oranges'' 4"
  have res: "fst ?run = Inr ex_embedding"
    by code_simp
  then have run: "?run = (Inr ex_embedding, snd ?run)"
    by (simp add: prod_eq_iff)
  from C7_path_segments [OF run] obtain f interp_mean
    where f: "fitted ex_embedding = Some f"
      and im: "transform_impl ex_lib f (tm_mean ex_transition_model [0, 1 / 2, 1]) = Inr interp_mean"
      and segs: "plotted_segments Pyplot (snd ?run)
         = map (\<lambda>i. (interp_mean ! (i - 1), interp_mean ! i)) [1..<length interp_mean]"
    by auto
  have "interp_mean = [(0, 0), (1 / 4, 1 / 2), (0, 1)]"
    using im by (simp add: ex_lib_def ex_transition_model_def ex_project_def)
  then have "map (\<lambda>i. (interp_mean ! (i - 1), interp_mean ! i)) [1..<length interp_mean]
      = [((0, 0), (1 / 4, 1 / 2)), ((1 / 4, 1 / 2), (0, 1))]"
    by (simp add: upt_conv_Cons)
  with segs res show ?thesis
    by simp
qed

subsection \<open>Fits in a trace\<close>

lemma fit_calls_append: "fit_calls (a @ b) = fit_calls a @ fit_calls b"
  by (simp add: fit_calls_def)

lemma snd_andthen:
  "snd (andthen m f) = (case fst m of Inl e \<Rightarrow> snd m | Inr x \<Rightarrow> snd m @ snd (f x))"
  by (cases m; cases "fst m") (auto simp: andthen_def split: prod.split)

lemma fit_calls_andthen:
  "(\<And>x. fit_calls (snd (f x)) = []) \<Longrightarrow> fit_calls (snd (andthen m f)) = fit_calls (snd m)"
  by (simp add: snd_andthen fit_calls_append split: sum.split)

lemma no_fit_andthen:
  "fit_calls (snd m) = [] \<Longrightarrow> (\<And>x. fit_calls (snd (f x)) = []) \<Longrightarrow>
   fit_calls (snd (andthen m f)) = []"
  by (simp add: fit_calls_andthen)

lemma no_fit_ret: "fit_calls (snd (ret x)) = []"
  by (simp add: ret_def fit_calls_def)

lemma no_fit_lift: "fit_calls (snd (lift r)) = []"
  by (simp add: lift_def fit_calls_def)

lemma no_fit_emit: "fit_of c = [] \<Longrightarrow> fit_calls (snd (emit c)) = []"
  by (simp add: emit_def fit_calls_def)

lemma snd_transform: "snd (transform lib emb d) = [LLE_transform d]"
  using transform_eq_iff [of lib emb d "fst (transform lib emb d)" "snd (transform lib emb d)"]
  by simp

lemma no_fit_transform: "fit_calls (snd (transform lib emb d)) = []"
  by (simp add: snd_transform fit_calls_def)

lemma no_fit_map_act:
  "(\<And>x. fit_calls (snd (f x)) = []) \<Longrightarrow> fit_calls (snd (map_act f xs)) = []"
  by (induction xs) (simp_all add: no_fit_andthen no_fit_ret)

lemma no_fit_for_each:
  "(\<And>x. fit_calls (snd (f x)) = []) \<Longrightarrow> fit_calls (snd (for_each f xs)) = []"
  by (simp add: for_each_def no_fit_andthen no_fit_map_act no_fit_ret)

lemma no_fit_state_center: "fit_calls (snd (state_center lib emb sm s)) = []"
  by (simp add: state_center_def no_fit_andthen no_fit_lift no_fit_transform)

lemma no_fit_draw_edge: "fit_calls (snd (draw_edge X Y item)) = []"
  unfolding draw_edge_def Let_def
  by (auto intro!: no_fit_andthen no_fit_lift no_fit_emit split: prod.splits)

lemma no_fit_draw_path: "fit_calls (snd (draw_path im)) = []"
  by (simp add: draw_path_def draw_segment_def no_fit_for_each no_fit_emit)

lemmas no_fit_intros = no_fit_andthen no_fit_ret no_fit_lift no_fit_emit no_fit_transform
  no_fit_map_act no_fit_for_each no_fit_state_center no_fit_draw_edge no_fit_draw_path

lemma fit_calls_resolve_embedding:
  "fit_calls (snd (resolve_embedding lib data nn emb))
     = (case emb of None \<Rightarrow> [data] | Some e \<Rightarrow> [])"
proof (cases emb)
  case None
  have "snd (fit_transform lib e0 data) = [LLE_fit_transform data]" for e0 :: "'a lle"
    by (simp add: fit_transform_def run_simps prepend_def lift_def ret_def split: sum.split prod.split)
  with None show ?thesis
    by (simp add: resolve_embedding_def fit_calls_def)
next
  case (Some e)
  then show ?thesis
    by (simp add: resolve_embedding_def no_fit_intros)
qed

lemma fit_calls_metastable_graph:
  "fit_calls (snd (plot_metastable_graph lib palette data g nn pe se ew emb ms args))
     = (case emb of None \<Rightarrow> [data] | Some e \<Rightarrow> [])"
proof -
  have "fit_calls (snd (plot_metastable_graph lib palette data g nn pe se ew emb ms args))
      = fit_calls (snd (resolve_embedding lib data nn emb))"
    unfolding plot_metastable_graph_def Let_def
    by (rule fit_calls_andthen) (auto intro!: no_fit_intros split: prod.splits)
  then show ?thesis
    by (simp add: fit_calls_resolve_embedding)
qed

lemma fit_calls_transition_model:
  "fit_calls (snd (plot_transition_model lib data tm nn emb colors pe tps args cmap nl))
     = (case emb of None \<Rightarrow> [data] | Some e \<Rightarrow> [])"
proof -
  obtain ts where ts: "(case tps of None \<Rightarrow> default_timepoints | Some ts \<Rightarrow> Inr ts) = Inr ts"
    by (cases tps) (auto simp: default_timepoints_eq)
  have "fit_calls (snd (plot_transition_model lib data tm nn emb colors pe tps args cmap nl))
      = fit_calls (snd (resolve_embedding lib data nn emb))"
    unfolding plot_transition_model_def Let_def ts andthen_lift_Inr
    by (rule fit_calls_andthen) (auto intro!: no_fit_intros split: prod.splits)
  then show ?thesis
    by (simp add: fit_calls_resolve_embedding)
qed

subsection \<open>The run of the graph plotter\<close>

lemma overlay_success:
  assumes "plot_metastable_graph lib palette data g nn True se ew emb ms args = (Inr r, tr)"
  shows "\<exists>e transformed t0 centers t1 t2 c nc.
     resolve_embedding lib data nn emb = (Inr (e, transformed), t0) \<and>
     state_colors palette (resolve_memberships ms g data) = Inr c \<and>
     map_act (state_center lib e (state_model g)) (np_unique (resolve_memberships ms g data))
       = (Inr centers, t1) \<and>
     for_each (draw_edge (map fst centers) (map snd centers)) (resolve_edge_weights ew g)
       = (Inr (), t2) \<and>
     state_colors palette (np_unique (resolve_memberships ms g data)) = Inr nc \<and>
     r = Some (c, e) \<and>
     tr = t0 @ [Subplots 2,
                Scatter (Ax 0) (map fst transformed) (map snd transformed) (PerPoint c) None
                  (scatter_kwargs args),
                Set_xticks (Ax 0) [], Set_yticks (Ax 0) [], Despine] @ t1 @ t2 @
          [Scatter (Ax 1) (map fst centers) (map snd centers) (PerPoint nc)
             (Some (node_sizes (resolve_memberships ms g data)
                      (np_unique (resolve_memberships ms g data))))
             [(''linewidth'', ''0''), (''zorder'', ''2'')],
           Set_xticks (Ax 1) [], Set_yticks (Ax 1) [], Despine, Add_subplot, Tick_params,
           Xlabel Pyplot ''Dimension 1'', Ylabel Pyplot ''Dimension 2'']"
  using assms
  unfolding plot_metastable_graph_def Let_def
  by (auto simp: act_simps split: prod.splits)

lemma plain_success:
  assumes "plot_metastable_graph lib palette data g nn False se ew emb ms args = (Inr r, tr)"
  shows "\<exists>e transformed t0 c.
     resolve_embedding lib data nn emb = (Inr (e, transformed), t0) \<and>
     state_colors palette (resolve_memberships ms g data) = Inr c \<and>
     r = None \<and>
     tr = t0 @ [Scatter Pyplot (map fst transformed) (map snd transformed) (PerPoint c) None
                  (scatter_kwargs args),
                Xlabel Pyplot ''Dimension 1'', Ylabel Pyplot ''Dimension 2'']"
  using assms
  unfolding plot_metastable_graph_def Let_def
  by (auto simp: act_simps split: prod.splits)

text \<open>The run of the graph plotter on the small instance, with the overlay.\<close>

lemma ex_unique: "np_unique [0, 0, 0, 1] = [0, 1]"
  by code_simp

lemma ex_memberships: "resolve_memberships None ex_graph ex_data = [0, 0, 0, 1]"
  by (simp add: resolve_memberships_def ex_graph_def ex_state_model_def)

lemma ex_colors: "state_colors ex_palette [0, 0, 0, 1] = Inr [''red'', ''red'', ''red'', ''blue'']"
  by code_simp

lemma ex_node_colors: "state_colors ex_palette [0, 1] = Inr [''red'', ''blue'']"
  by code_simp

lemma ex_resolve:
  "resolve_embedding ex_lib ex_data None (Some ex_embedding)
     = (Inr (ex_embedding, [(0, 0), (1, 0), (2, 2), (3, 2)]), [LLE_transform ex_data])"
  by code_simp

lemma ex_centers:
  "map_act (state_center ex_lib ex_embedding (state_model ex_graph)) [0, 1]
     = (Inr [(1, 0), (3, 2)], [LLE_transform [[1, 0, 0]], LLE_transform [[3, 2, 2]]])"
  by code_simp

lemma ex_edges:
  "for_each (draw_edge [1, 3] [0, 2]) (resolve_edge_weights [] ex_graph)
     = (Inr (), [Plot (Ax 1) [1, 3] [0, 2] (7 / 4), Text (Ax 1) 2 1 25])"
  by code_simp

lemma ex_sizes:
  "node_sizes [0, 0, 0, 1] [0, 1] = [5000 * ln (1 + 3 / 4), 5000 * ln (1 + 1 / 4)]"
  by (simp add: node_sizes_def)

lemma ex_overlay_run:
  "plot_metastable_graph ex_lib ex_palette ex_data ex_graph None True [] [] (Some ex_embedding)
       None []
   = (Inr (Some ([''red'', ''red'', ''red'', ''blue''], ex_embedding)),
      [LLE_transform ex_data, Subplots 2,
       Scatter (Ax 0) [0, 1, 2, 3] [0, 0, 2, 2] (PerPoint [''red'', ''red'', ''red'', ''blue''])
         None [(''linewidth'', ''0''), (''alpha'', ''0.6'')],
       Set_xticks (Ax 0) [], Set_yticks (Ax 0) [], Despine,
       LLE_transform [[1, 0, 0]], LLE_transform [[3, 2, 2]],
       Plot (Ax 1) [1, 3] [0, 2] (7 / 4), Text (Ax 1) 2 1 25,
       Scatter (Ax 1) [1, 3] [0, 2] (PerPoint [''red'', ''blue''])
         (Some [5000 * ln (1 + 3 / 4), 5000 * ln (1 + 1 / 4)])
         [(''linewidth'', ''0''), (''zorder'', ''2'')],
       Set_xticks (Ax 1) [], Set_yticks (Ax 1) [], Despine, Add_subplot, Tick_params,
       Xlabel Pyplot ''Dimension 1'', Ylabel Pyplot ''Dimension 2''])"
  unfolding plot_metastable_graph_def Let_def ex_resolve ex_memberships
  by (simp add: run_simps andthen_Inr_pair ex_unique ex_colors ex_node_colors ex_centers
        ex_edges ex_sizes scatter_kwargs_def del: map_act.simps One_nat_def)

subsection \<open>A supplied embedding is never refit\<close>

text \<open>
  Claim C8: on every call of the graph plotter or of the transition plotter with an
  embedding supplied by the caller, whether the call returns or raises, no
  \<^verbatim>\<open>fit_transform\<close> is called (the embedding is used through \<^verbatim>\<open>transform\<close> only), and an
  embedding that is returned is the supplied one, fitted state included. Without a supplied
  embedding there is exactly one fit, on the data.
\<close>

theorem C8_no_refit:
  "fit_calls (snd (plot_metastable_graph lib palette data g nn pe se ew (Some e) ms args)) = []
   \<and> fit_calls (snd (plot_transition_model lib2 data tm nn (Some e2) colors perr tps args2 cmap nl)) = []
   \<and> (plot_metastable_graph lib palette data g nn pe se ew (Some e) ms args
         = (Inr (Some (c, e')), tr) \<longrightarrow> e' = e)
   \<and> (plot_transition_model lib2 data tm nn (Some e2) colors perr tps args2 cmap nl
         = (Inr e2', tr2) \<longrightarrow> e2' = e2)
   \<and> fit_calls (snd (plot_metastable_graph lib palette data g nn pe se ew None ms args)) = [data]
   \<and> fit_calls (snd (plot_transition_model lib2 data tm nn None colors perr tps args2 cmap nl)) = [data]"
proof -
  have graph: "e' = e"
    if run: "plot_metastable_graph lib palette data g nn pe se ew (Some e) ms args
               = (Inr (Some (c, e')), tr)"
  proof (cases pe)
    case True
    with overlay_success [of lib palette data g nn se ew "Some e" ms args "Some (c, e')" tr] run
    show ?thesis
      by (auto simp: resolve_embedding_eq_Inr_iff)
  next
    case False
    with plain_success [of lib palette data g nn se ew "Some e" ms args "Some (c, e')" tr] run
    show ?thesis
      by auto
  qed
  have trans: "e2' = e2"
    if run: "plot_transition_model lib2 data tm nn (Some e2) colors perr tps args2 cmap nl
               = (Inr e2', tr2)"
    using transition_success [OF run] by (auto simp: resolve_embedding_eq_Inr_iff)
  show ?thesis
    using graph trans by (simp add: fit_calls_metastable_graph fit_calls_transition_model)
qed

text \<open>Both plotters on the small instance, with a fitted embedding supplied.\<close>

theorem C8_no_refit_witness:
  "plot_metastable_graph ex_lib ex_palette ex_data ex_graph None True [] [] (Some ex_embedding)
       None []
     = (Inr (Some ([''red'', ''red'', ''red'', ''blue''], ex_embedding)),
        snd (plot_metastable_graph ex_lib ex_palette ex_data ex_graph None True [] []
               (Some ex_embedding) None []))
   \<and> plot_transition_model ex_lib ex_data ex_transition_model None (Some ex_embedding)
          ''magenta'' True None [] ''Oranges'' 4
     = (Inr ex_embedding,
        snd (plot_transition_model ex_lib ex_data ex_transition_model None (Some ex_embedding)
               ''magenta'' True None [] ''Oranges'' 4))
   \<and> fit_calls (snd (plot_metastable_graph ex_lib ex_palette ex_data ex_graph None True [] []
          (Some ex_embedding) None [])) = []
   \<and> fit_calls (snd (plot_transition_model ex_lib ex_data ex_transition_model None
          (Some ex_embedding) ''magenta'' True None [] ''Oranges'' 4)) = []"
proof -
  let ?g = "plot_metastable_graph ex_lib ex_palette ex_data ex_graph None True [] []
              (Some ex_embedding) None []"
  let ?t = "plot_transition_model ex_lib ex_data ex_transition_model None (Some ex_embedding)
              ''magenta'' True None [] ''Oranges'' 4"
  have g: "?g = (Inr (Some ([''red'', ''red'', ''red'', ''blue''], ex_embedding)), snd ?g)"
    by (simp add: ex_overlay_run)
  have "fst ?t = Inr ex_embedding"
    by code_simp
  then have t: "?t = (Inr ex_embedding, snd ?t)"
    by (simp add: prod_eq_iff)
  from C8_no_refit [of ex_lib ex_palette ex_data ex_graph None True "[]" "[]" ex_embedding None "[]"
      ex_lib ex_transition_model ex_embedding "''magenta''" True None "[]" "''Oranges''" 4]
    g t show ?thesis
    by simp
qed

subsection \<open>Node sizes and edge widths of the overlay\<close>

lemma map_act_Cons_Inr_iff:
  "map_act f (x # xs) = (Inr ys, t) \<longleftrightarrow>
     (\<exists>y ys' t1 t2. f x = (Inr y, t1) \<and> map_act f xs = (Inr ys', t2) \<and> ys = y # ys' \<and> t = t1 @ t2)"
  by (auto simp: act_simps)

lemma for_each_Nil: "for_each f [] = (Inr (), [])"
  by (simp add: for_each_def ret_def andthen_def)

lemma for_each_Cons_Inr_iff:
  "for_each f (x # xs) = (Inr (), t) \<longleftrightarrow>
     (\<exists>t1 t2. f x = (Inr (), t1) \<and> for_each f xs = (Inr (), t2) \<and> t = t1 @ t2)"
  by (auto simp: for_each_def act_simps)

lemma draw_edge_Inr_iff:
  "draw_edge X Y ((state1, state2), weight) = (Inr u, t) \<longleftrightarrow>
     (\<exists>x1 x2 y1 y2.
        py_getitem X (index state1) = Inr x1 \<and> py_getitem X (index state2) = Inr x2 \<and>
        py_getitem Y (index state1) = Inr y1 \<and> py_getitem Y (index state2) = Inr y2 \<and>
        t = [Plot (Ax 1) [x1, x2] [y1, y2] (max 0.5 (7 * weight)),
             Text (Ax 1) (min x1 x2 + \<bar>x1 - x2\<bar> / 2) (min y1 y2 + \<bar>y1 - y2\<bar> / 2)
               (py_int (weight * 100))])"
  by (auto simp: draw_edge_def Let_def act_simps)

lemma edges_trace:
  "for_each (draw_edge X Y) ews = (Inr (), t) \<Longrightarrow>
   plot_widths (Ax 1) t = map (\<lambda>(states, w). max 0.5 (7 * w)) ews
   \<and> scatter_sizes tg t = [] \<and> scatter_colors tg t = []"
proof (induction ews arbitrary: t)
  case Nil
  then show ?case
    by (simp add: for_each_Nil plot_widths_def scatter_sizes_def scatter_colors_def)
next
  case (Cons item ews)
  obtain state1 state2 weight where item: "item = ((state1, state2), weight)"
    by (metis surj_pair)
  from Cons.prems obtain t1 t2 where first: "draw_edge X Y item = (Inr (), t1)"
    and rest: "for_each (draw_edge X Y) ews = (Inr (), t2)" and t: "t = t1 @ t2"
    by (auto simp: for_each_Cons_Inr_iff)
  from first obtain xs ys mx my where
    t1: "t1 = [Plot (Ax 1) xs ys (max 0.5 (7 * weight)), Text (Ax 1) mx my (py_int (weight * 100))]"
    unfolding item draw_edge_Inr_iff by blast
  from Cons.IH [OF rest] show ?case
    by (simp add: t t1 item plot_widths_def scatter_sizes_def scatter_colors_def)
qed

lemma state_center_trace:
  "state_center lib e sm s = (Inr y, t) \<Longrightarrow> \<exists>d. t = [LLE_transform d]"
  by (auto simp: state_center_def act_simps transform_eq_iff)

lemma centers_trace:
  "map_act (state_center lib e sm) xs = (Inr centers, t) \<Longrightarrow>
   length centers = length xs \<and> plot_widths tg t = [] \<and> scatter_sizes tg t = []
   \<and> scatter_colors tg t = []"
proof (induction xs arbitrary: centers t)
  case Nil
  then show ?case
    by (simp add: ret_def plot_widths_def scatter_sizes_def scatter_colors_def)
next
  case (Cons x xs)
  from Cons.prems obtain y ys' t1 t2 where first: "state_center lib e sm x = (Inr y, t1)"
    and rest: "map_act (state_center lib e sm) xs = (Inr ys', t2)"
    and c: "centers = y # ys'" and t: "t = t1 @ t2"
    unfolding map_act_Cons_Inr_iff by blast
  from state_center_trace [OF first] Cons.IH [OF rest] show ?case
    by (auto simp: c t plot_widths_def scatter_sizes_def scatter_colors_def)
qed

lemma resolve_embedding_quiet:
  "resolve_embedding lib data nn emb = (Inr x, t) \<Longrightarrow>
   plot_widths tg t = [] \<and> scatter_sizes tg t = [] \<and> scatter_colors tg t = []"
  by (drule resolve_embedding_trace)
     (simp add: plot_widths_def scatter_sizes_def scatter_colors_def split: option.splits)

lemma np_unique_set: "set (np_unique ms) = set ms"
  by (simp add: np_unique_def)

lemma count_as_filter: "length (filter (\<lambda>m. m = s) ms) = count_list ms s"
  by (induction ms) auto

text \<open>
  Claim C4: when the graph plotter returns with the overlay enabled, the scatter call of
  the node panel receives, for the states present in the memberships in ascending order,
  the sizes \<open>5000 * ln (1 + k / N)\<close>, with \<open>k\<close> the number of points in the state and
  \<open>N\<close> the number of points; and the plot calls of the node panel receive, edge by edge
  in the order of the weight dictionary, the widths \<open>max 0.5 (7 * w)\<close>. Floats are
  idealised as reals.
\<close>

theorem C4_node_sizes_and_edge_widths:
  assumes "plot_metastable_graph lib palette data g nn True se ew emb ms_arg args = (Inr r, tr)"
  shows "scatter_sizes (Ax 1) tr
           = [map (\<lambda>s. 5000 * ln (1 + real (count_list (resolve_memberships ms_arg g data) s)
                                      / real (length (resolve_memberships ms_arg g data))))
                (np_unique (resolve_memberships ms_arg g data))]
     \<and> set (np_unique (resolve_memberships ms_arg g data)) = set (resolve_memberships ms_arg g data)
     \<and> plot_widths (Ax 1) tr
           = map (\<lambda>(states, w). max 0.5 (7 * w)) (resolve_edge_weights ew g)"
proof -
  let ?ms = "resolve_memberships ms_arg g data"
  from overlay_success [OF assms] obtain e transformed t0 centers t1 t2 c nc
    where res: "resolve_embedding lib data nn emb = (Inr (e, transformed), t0)"
      and cen: "map_act (state_center lib e (state_model g)) (np_unique ?ms) = (Inr centers, t1)"
      and edg: "for_each (draw_edge (map fst centers) (map snd centers)) (resolve_edge_weights ew g)
                  = (Inr (), t2)"
      and tr: "tr = t0 @ [Subplots 2,
                Scatter (Ax 0) (map fst transformed) (map snd transformed) (PerPoint c) None
                  (scatter_kwargs args),
                Set_xticks (Ax 0) [], Set_yticks (Ax 0) [], Despine] @ t1 @ t2 @
          [Scatter (Ax 1) (map fst centers) (map snd centers) (PerPoint nc)
             (Some (node_sizes ?ms (np_unique ?ms)))
             [(''linewidth'', ''0''), (''zorder'', ''2'')],
           Set_xticks (Ax 1) [], Set_yticks (Ax 1) [], Despine, Add_subplot, Tick_params,
           Xlabel Pyplot ''Dimension 1'', Ylabel Pyplot ''Dimension 2'']"
    by blast
  have sizes: "node_sizes ?ms (np_unique ?ms)
      = map (\<lambda>s. 5000 * ln (1 + real (count_list ?ms s) / real (length ?ms))) (np_unique ?ms)"
    by (simp add: node_sizes_def count_as_filter)
  have w_app: "plot_widths (Ax 1) (a @ b) = plot_widths (Ax 1) a @ plot_widths (Ax 1) b"
    and s_app: "scatter_sizes (Ax 1) (a @ b) = scatter_sizes (Ax 1) a @ scatter_sizes (Ax 1) b"
    for a b by (simp_all add: plot_widths_def scatter_sizes_def)
  note q0 = resolve_embedding_quiet [OF res, of "Ax 1"]
  note q1 = centers_trace [OF cen, of "Ax 1"]
  note q2 = edges_trace [OF edg, of "Ax 1"]
  have "scatter_sizes (Ax 1) tr = [node_sizes ?ms (np_unique ?ms)]"
    unfolding tr s_app using q0 q1 q2 by (simp add: scatter_sizes_def)
  moreover have "plot_widths (Ax 1) tr = map (\<lambda>(states, w). max 0.5 (7 * w)) (resolve_edge_weights ew g)"
    unfolding tr w_app using q0 q1 q2 by (simp add: plot_widths_def)
  ultimately show ?thesis
    by (simp add: sizes np_unique_set)
qed

text \<open>
  Three points of four in state 0, one in state 1, one edge of weight 0.25: sizes
  \<open>5000 * ln 1.75\<close> and \<open>5000 * ln 1.25\<close>, width 1.75.
\<close>

theorem C4_node_sizes_and_edge_widths_witness:
  "fst (plot_metastable_graph ex_lib ex_palette ex_data ex_graph None True [] []
          (Some ex_embedding) None [])
     = Inr (Some ([''red'', ''red'', ''red'', ''blue''], ex_embedding))
   \<and> scatter_sizes (Ax 1) (snd (plot_metastable_graph ex_lib ex_palette ex_data ex_graph None
          True [] [] (Some ex_embedding) None []))
     = [[5000 * ln (1 + 3 / 4), 5000 * ln (1 + 1 / 4)]]
   \<and> plot_widths (Ax 1) (snd (plot_metastable_graph ex_lib ex_palette ex_data ex_graph None
          True [] [] (Some ex_embedding) None []))
     = [7 / 4]"
proof -
  let ?run = "plot_metastable_graph ex_lib ex_palette ex_data ex_graph None True [] []
                (Some ex_embedding) None []"
  have run: "?run = (Inr (Some ([''red'', ''red'', ''red'', ''blue''], ex_embedding)), snd ?run)"
    by (simp add: ex_overlay_run)
  have counts: "count_list [0, 0, 0, 1 :: int] 0 = 3" "count_list [0, 0, 0, 1 :: int] 1 = 1"
    by simp_all
  have widths: "map (\<lambda>(states, w). max 0.5 (7 * w)) (resolve_edge_weights [] ex_graph) = [7 / 4]"
    by (simp add: resolve_edge_weights_def ex_graph_def)
  from C4_node_sizes_and_edge_widths [OF run] show ?thesis
    unfolding ex_memberships ex_unique widths
    by (simp add: counts ex_overlay_run)
qed

subsection \<open>What the graph plotter returns\<close>

lemma state_colors_Inr:
  "state_colors palette ms = Inr colors \<Longrightarrow>
   length colors = length ms \<and> (\<forall>i < length ms. palette (ms ! i) = Some (colors ! i))"
proof -
  assume a: "state_colors palette ms = Inr colors"
  then have len: "length colors = length ms"
    unfolding state_colors_def by (rule map_result_length)
  have "palette (ms ! i) = Some (colors ! i)" if "i < length ms" for i
    using map_result_nth [OF a [unfolded state_colors_def] that]
    by (simp add: py_lookup_def split: option.splits)
  with len show ?thesis
    by blast
qed

lemma ex_plain_run:
  "plot_metastable_graph ex_lib ex_palette ex_data ex_graph None False [] [] (Some ex_embedding)
       None []
   = (Inr None,
      [LLE_transform ex_data,
       Scatter Pyplot [0, 1, 2, 3] [0, 0, 2, 2] (PerPoint [''red'', ''red'', ''red'', ''blue''])
         None [(''linewidth'', ''0''), (''alpha'', ''0.6'')],
       Xlabel Pyplot ''Dimension 1'', Ylabel Pyplot ''Dimension 2''])"
  unfolding plot_metastable_graph_def Let_def ex_resolve ex_memberships
  by (simp add: run_simps andthen_Inr_pair ex_colors scatter_kwargs_def)

text \<open>
  Claim C5: a call of the graph plotter that returns with the overlay enabled returns the
  array of per-point colours, element \<open>i\<close> being the palette entry of the \<open>i\<close>-th
  membership label and the array being the one passed to the scatter of the point panel,
  together with the embedding object (the supplied one, or the one fitted in the call);
  with the overlay disabled it returns nothing (\<^verbatim>\<open>None\<close>).
\<close>

theorem C5_return_value:
  assumes "plot_metastable_graph lib palette data g nn plot_edges se ew emb ms_arg args = (Inr r, tr)"
  shows "if plot_edges then
           (\<exists>colors e transformed t0.
              r = Some (colors, e)
              \<and> resolve_embedding lib data nn emb = (Inr (e, transformed), t0)
              \<and> (case emb of Some e0 \<Rightarrow> e = e0
                  | None \<Rightarrow> \<exists>f. e = (choose_2d_embedding data nn)\<lparr>fitted := Some f\<rparr>)
              \<and> length colors = length (resolve_memberships ms_arg g data)
              \<and> (\<forall>i < length (resolve_memberships ms_arg g data).
                    palette (resolve_memberships ms_arg g data ! i) = Some (colors ! i))
              \<and> scatter_colors (Ax 0) tr = [colors])
         else r = None"
proof (cases plot_edges)
  case False
  with plain_success [of lib palette data g nn se ew emb ms_arg args r tr] assms show ?thesis
    by auto
next
  case True
  let ?ms = "resolve_memberships ms_arg g data"
  from assms True
  have run: "plot_metastable_graph lib palette data g nn True se ew emb ms_arg args = (Inr r, tr)"
    by simp
  from overlay_success [OF run]
  obtain e transformed t0 centers t1 t2 c nc
    where res: "resolve_embedding lib data nn emb = (Inr (e, transformed), t0)"
      and col: "state_colors palette ?ms = Inr c"
      and cen: "map_act (state_center lib e (state_model g)) (np_unique ?ms) = (Inr centers, t1)"
      and edg: "for_each (draw_edge (map fst centers) (map snd centers)) (resolve_edge_weights ew g)
                  = (Inr (), t2)"
      and r: "r = Some (c, e)"
      and tr: "tr = t0 @ [Subplots 2,
                Scatter (Ax 0) (map fst transformed) (map snd transformed) (PerPoint c) None
                  (scatter_kwargs args),
                Set_xticks (Ax 0) [], Set_yticks (Ax 0) [], Despine] @ t1 @ t2 @
          [Scatter (Ax 1) (map fst centers) (map snd centers) (PerPoint nc)
             (Some (node_sizes ?ms (np_unique ?ms)))
             [(''linewidth'', ''0''), (''zorder'', ''2'')],
           Set_xticks (Ax 1) [], Set_yticks (Ax 1) [], Despine, Add_subplot, Tick_params,
           Xlabel Pyplot ''Dimension 1'', Ylabel Pyplot ''Dimension 2'']"
    by blast
  have c_app: "scatter_colors (Ax 0) (a @ b) = scatter_colors (Ax 0) a @ scatter_colors (Ax 0) b"
    for a b by (simp add: scatter_colors_def)
  note q0 = resolve_embedding_quiet [OF res, of "Ax 0"]
  note q1 = centers_trace [OF cen, of "Ax 0"]
  note q2 = edges_trace [OF edg, of "Ax 0"]
  have top: "scatter_colors (Ax 0) [Subplots 2,
                Scatter (Ax 0) (map fst transformed) (map snd transformed) (PerPoint c) None
                  (scatter_kwargs args),
                Set_xticks (Ax 0) [], Set_yticks (Ax 0) [], Despine] = [c]"
    by (simp add: scatter_colors_def)
  have bottom: "scatter_colors (Ax 0) [Scatter (Ax 1) (map fst centers) (map snd centers) (PerPoint nc)
             (Some (node_sizes ?ms (np_unique ?ms)))
             [(''linewidth'', ''0''), (''zorder'', ''2'')],
           Set_xticks (Ax 1) [], Set_yticks (Ax 1) [], Despine, Add_subplot, Tick_params,
           Xlabel Pyplot ''Dimension 1'', Ylabel Pyplot ''Dimension 2''] = []"
    by (simp add: scatter_colors_def)
  have shown: "scatter_colors (Ax 0) tr = [c]"
    unfolding tr c_app top bottom using q0 q1 q2 by simp
  have emb: "case emb of Some e0 \<Rightarrow> e = e0
             | None \<Rightarrow> \<exists>f. e = (choose_2d_embedding data nn)\<lparr>fitted := Some f\<rparr>"
    using res by (auto simp: resolve_embedding_eq_Inr_iff split: option.splits)
  from True r res emb state_colors_Inr [OF col] shown show ?thesis
    by auto
qed

text \<open>The small instance with the overlay and without it.\<close>

theorem C5_return_value_witness:
  "plot_metastable_graph ex_lib ex_palette ex_data ex_graph None True [] [] (Some ex_embedding)
       None []
     = (Inr (Some ([''red'', ''red'', ''red'', ''blue''], ex_embedding)),
        snd (plot_metastable_graph ex_lib ex_palette ex_data ex_graph None True [] []
               (Some ex_embedding) None []))
   \<and> scatter_colors (Ax 0) (snd (plot_metastable_graph ex_lib ex_palette ex_data ex_graph None
          True [] [] (Some ex_embedding) None [])) = [[''red'', ''red'', ''red'', ''blue'']]
   \<and> fst (plot_metastable_graph ex_lib ex_palette ex_data ex_graph None False [] []
          (Some ex_embedding) None []) = Inr None"
proof -
  let ?on = "plot_metastable_graph ex_lib ex_palette ex_data ex_graph None True [] []
               (Some ex_embedding) None []"
  let ?off = "plot_metastable_graph ex_lib ex_palette ex_data ex_graph None False [] []
                (Some ex_embedding) None []"
  have on: "?on = (Inr (Some ([''red'', ''red'', ''red'', ''blue''], ex_embedding)), snd ?on)"
    by (simp add: ex_overlay_run)
  from C5_return_value [OF on] have "scatter_colors (Ax 0) (snd ?on) = [[''red'', ''red'', ''red'', ''blue'']]"
    by auto
  moreover have "fst ?off = Inr None"
    by (simp add: ex_plain_run)
  ultimately show ?thesis
    using on by simp
qed

subsection \<open>The fallback to the graph's own edges\<close>

lemma overlay_widths:
  assumes "plot_metastable_graph lib palette data g nn True se ew emb ms_arg args = (Inr r, tr)"
  shows "plot_widths (Ax 1) tr = map (\<lambda>(states, w). max 0.5 (7 * w)) (resolve_edge_weights ew g)"
proof -
  let ?ms = "resolve_memberships ms_arg g data"
  from overlay_success [OF assms] obtain e transformed t0 centers t1 t2 c nc
    where res: "resolve_embedding lib data nn emb = (Inr (e, transformed), t0)"
      and cen: "map_act (state_center lib e (state_model g)) (np_unique ?ms) = (Inr centers, t1)"
      and edg: "for_each (draw_edge (map fst centers) (map snd centers)) (resolve_edge_weights ew g)
                  = (Inr (), t2)"
      and tr: "tr = t0 @ [Subplots 2,
                Scatter (Ax 0) (map fst transformed) (map snd transformed) (PerPoint c) None
                  (scatter_kwargs args),
                Set_xticks (Ax 0) [], Set_yticks (Ax 0) [], Despine] @ t1 @ t2 @
          [Scatter (Ax 1) (map fst centers) (map snd centers) (PerPoint nc)
             (Some (node_sizes ?ms (np_unique ?ms)))
             [(''linewidth'', ''0''), (''zorder'', ''2'')],
           Set_xticks (Ax 1) [], Set_yticks (Ax 1) [], Despine, Add_subplot, Tick_params,
           Xlabel Pyplot ''Dimension 1'', Ylabel Pyplot ''Dimension 2'']"
    by blast
  have w_app: "plot_widths (Ax 1) (a @ b) = plot_widths (Ax 1) a @ plot_widths (Ax 1) b"
    for a b by (simp add: plot_widths_def)
  have top: "plot_widths (Ax 1) [Subplots 2,
                Scatter (Ax 0) (map fst transformed) (map snd transformed) (PerPoint c) None
                  (scatter_kwargs args),
                Set_xticks (Ax 0) [], Set_yticks (Ax 0) [], Despine] = []"
    by (simp add: plot_widths_def)
  have bottom: "plot_widths (Ax 1) [Scatter (Ax 1) (map fst centers) (map snd centers) (PerPoint nc)
             (Some (node_sizes ?ms (np_unique ?ms)))
             [(''linewidth'', ''0''), (''zorder'', ''2'')],
           Set_xticks (Ax 1) [], Set_yticks (Ax 1) [], Despine, Add_subplot, Tick_params,
           Xlabel Pyplot ''Dimension 1'', Ylabel Pyplot ''Dimension 2''] = []"
    by (simp add: plot_widths_def)
  note q0 = resolve_embedding_quiet [OF res, of "Ax 1"]
  note q1 = centers_trace [OF cen, of "Ax 1"]
  note q2 = edges_trace [OF edg, of "Ax 1"]
  show ?thesis
    unfolding tr w_app top bottom using q0 q1 q2 by simp
qed

text \<open>
  Claim C9: in the graph plotter with the overlay enabled, an empty \<^verbatim>\<open>edge_weights\<close>
  argument is replaced by the graph's own \<^verbatim>\<open>edge_weights\<close> (the call is the call with
  the graph's own mapping passed, and the edges drawn are those of that mapping), an empty
  \<^verbatim>\<open>state_edges\<close> argument is replaced by the graph's own \<^verbatim>\<open>state_edges\<close>, and
  non-empty arguments are used as given.
\<close>

theorem C9_edge_fallback:
  "resolve_edge_weights [] g = edge_weights g
   \<and> (ew \<noteq> [] \<longrightarrow> resolve_edge_weights ew g = ew)
   \<and> resolve_state_edges [] g = state_edges g
   \<and> (se \<noteq> [] \<longrightarrow> resolve_state_edges se g = se)
   \<and> plot_metastable_graph lib palette data g nn True se [] emb ms_arg args
       = plot_metastable_graph lib palette data g nn True se (edge_weights g) emb ms_arg args
   \<and> (plot_metastable_graph lib palette data g nn True se ew emb ms_arg args = (Inr r, tr)
        \<longrightarrow> plot_widths (Ax 1) tr
              = map (\<lambda>(states, w). max 0.5 (7 * w)) (if ew = [] then edge_weights g else ew))"
proof -
  have same: "resolve_edge_weights (edge_weights g) g = resolve_edge_weights [] g"
    by (simp add: resolve_edge_weights_def)
  have "plot_metastable_graph lib palette data g nn True se [] emb ms_arg args
       = plot_metastable_graph lib palette data g nn True se (edge_weights g) emb ms_arg args"
    unfolding plot_metastable_graph_def Let_def same ..
  moreover have "plot_widths (Ax 1) tr
              = map (\<lambda>(states, w). max 0.5 (7 * w)) (if ew = [] then edge_weights g else ew)"
    if "plot_metastable_graph lib palette data g nn True se ew emb ms_arg args = (Inr r, tr)"
    using overlay_widths [OF that] by (simp add: resolve_edge_weights_def)
  ultimately show ?thesis
    by (simp add: resolve_edge_weights_def resolve_state_edges_def)
qed

text \<open>The small instance, with empty and with non-empty edge arguments.\<close>

theorem C9_edge_fallback_witness:
  "resolve_edge_weights [] ex_graph = [((\<lparr>index = 0\<rparr>, \<lparr>index = 1\<rparr>), 1 / 4)]
   \<and> resolve_edge_weights [((\<lparr>index = 1\<rparr>, \<lparr>index = 0\<rparr>), 1 / 2)] ex_graph
       = [((\<lparr>index = 1\<rparr>, \<lparr>index = 0\<rparr>), 1 / 2)]
   \<and> resolve_state_edges [] ex_graph = [(\<lparr>index = 0\<rparr>, \<lparr>index = 1\<rparr>)]
   \<and> resolve_state_edges [(\<lparr>index = 1\<rparr>, \<lparr>index = 0\<rparr>)] ex_graph = [(\<lparr>index = 1\<rparr>, \<lparr>index = 0\<rparr>)]
   \<and> plot_widths (Ax 1) (snd (plot_metastable_graph ex_lib ex_palette ex_data ex_graph None True
          [] [] (Some ex_embedding) None [])) = [7 / 4]"
proof -
  let ?run = "plot_metastable_graph ex_lib ex_palette ex_data ex_graph None True [] []
                (Some ex_embedding) None []"
  have run: "?run = (Inr (Some ([''red'', ''red'', ''red'', ''blue''], ex_embedding)), snd ?run)"
    by (simp add: ex_overlay_run)
  have ne: "[((\<lparr>index = 1\<rparr>, \<lparr>index = 0\<rparr>), 1 / 2 :: real)] \<noteq> []"
    "[(\<lparr>index = 1\<rparr>, \<lparr>index = 0\<rparr>)] \<noteq> []"
    by simp_all
  have g: "edge_weights ex_graph = [((\<lparr>index = 0\<rparr>, \<lparr>index = 1\<rparr>), 1 / 4)]"
    "state_edges ex_graph = [(\<lparr>index = 0\<rparr>, \<lparr>index = 1\<rparr>)]"
    by (simp_all add: ex_graph_def)
  note given_c9 = C9_edge_fallback [where g = ex_graph
      and ew = "[((\<lparr>index = 1\<rparr>, \<lparr>index = 0\<rparr>), 1 / 2)]"
      and se = "[(\<lparr>index = 1\<rparr>, \<lparr>index = 0\<rparr>)]"]
  have given1: "resolve_edge_weights [((\<lparr>index = 1\<rparr>, \<lparr>index = 0\<rparr>), 1 / 2)] ex_graph
       = [((\<lparr>index = 1\<rparr>, \<lparr>index = 0\<rparr>), 1 / 2)]"
    by (rule given_c9 [THEN conjunct2, THEN conjunct1, THEN mp, OF ne(1)])
  have given2: "resolve_state_edges [(\<lparr>index = 1\<rparr>, \<lparr>index = 0\<rparr>)] ex_graph
       = [(\<lparr>index = 1\<rparr>, \<lparr>index = 0\<rparr>)]"
    by (rule given_c9 [THEN conjunct2, THEN conjunct2, THEN conjunct2, THEN conjunct1, THEN mp,
          OF ne(2)])
  note own_c9 = C9_edge_fallback [where g = ex_graph and ew = "[]" and se = "[]" and lib = ex_lib
      and palette = ex_palette and data = ex_data and nn = None and emb = "Some ex_embedding"
      and ms_arg = None and args = "[]"
      and r = "Some ([''red'', ''red'', ''red'', ''blue''], ex_embedding)" and tr = "snd ?run"]
  have own1: "resolve_edge_weights [] ex_graph = edge_weights ex_graph"
    by (rule own_c9 [THEN conjunct1])
  have own2: "resolve_state_edges [] ex_graph = state_edges ex_graph"
    by (rule own_c9 [THEN conjunct2, THEN conjunct2, THEN conjunct1])
  note own3 = own_c9 [THEN conjunct2, THEN conjunct2, THEN conjunct2, THEN conjunct2,
      THEN conjunct2, THEN mp, OF run]
  from given1 given2 own1 own2 own3 show ?thesis
    by (simp add: g)
qed

subsection \<open>Edge end points are looked up by state index\<close>

lemma py_getitem_Inl_iff:
  "py_getitem xs i = Inl err \<longleftrightarrow>
     err = IndexError \<and> \<not> (- int (length xs) \<le> i \<and> i < int (length xs))"
  by (auto simp: py_getitem_def)

lemma py_getitem_Inr_in_range:
  "(\<exists>y. py_getitem xs i = Inr y) \<longleftrightarrow> - int (length xs) \<le> i \<and> i < int (length xs)"
  by (auto simp: py_getitem_def)

lemma fst_andthen:
  "fst (andthen m f) = (case fst m of Inl e \<Rightarrow> Inl e | Inr x \<Rightarrow> fst (f x))"
  by (cases m; cases "fst m") (auto simp: andthen_def split: prod.split)

lemma fst_prepend: "fst (prepend t m) = fst m"
  by (simp add: prepend_def)

lemma draw_edge_result:
  assumes "length X = length Y"
  shows "fst (draw_edge X Y ((state1, state2), weight))
     = (if (- int (length X) \<le> index state1 \<and> index state1 < int (length X))
          \<and> (- int (length X) \<le> index state2 \<and> index state2 < int (length X))
        then Inr () else Inl IndexError)"
proof -
  let ?in = "\<lambda>i. - int (length X) \<le> i \<and> i < int (length X)"
  have unfold: "fst (draw_edge X Y ((state1, state2), weight))
      = (case py_getitem X (index state1) of Inl err \<Rightarrow> Inl err | Inr x1 \<Rightarrow>
          (case py_getitem X (index state2) of Inl err \<Rightarrow> Inl err | Inr x2 \<Rightarrow>
            (case py_getitem Y (index state1) of Inl err \<Rightarrow> Inl err | Inr y1 \<Rightarrow>
              (case py_getitem Y (index state2) of Inl err \<Rightarrow> Inl err | Inr y2 \<Rightarrow> Inr ()))))"
    by (simp add: draw_edge_def Let_def fst_andthen lift_def emit_def split: sum.split)
  have look: "py_getitem xs i = (if - int (length xs) \<le> i \<and> i < int (length xs)
                  then Inr (xs ! nat (if 0 \<le> i then i else int (length xs) + i))
                  else Inl IndexError)" for xs :: "real list" and i
    by (auto simp: py_getitem_def)
  show ?thesis
    unfolding unfold look assms [symmetric] by simp
qed

lemma for_each_Cons_result:
  "fst (for_each f (x # xs))
     = (case fst (f x) of Inl e \<Rightarrow> Inl e | Inr u \<Rightarrow> fst (for_each f xs))"
  by (auto simp: for_each_def fst_andthen ret_def split: sum.splits)

lemma edges_result:
  assumes "length X = length Y"
  shows "fst (for_each (draw_edge X Y) ews)
     = (if \<forall>item \<in> set ews.
             (- int (length X) \<le> index (fst (fst item)) \<and> index (fst (fst item)) < int (length X))
           \<and> (- int (length X) \<le> index (snd (fst item)) \<and> index (snd (fst item)) < int (length X))
        then Inr () else Inl IndexError)"
proof (induction ews)
  case Nil
  then show ?case by (simp add: for_each_Nil)
next
  case (Cons item ews)
  obtain state1 state2 weight where item: "item = ((state1, state2), weight)"
    by (metis surj_pair)
  show ?case
    unfolding for_each_Cons_result item draw_edge_result [OF assms] using Cons.IH
    by (simp split: if_splits)
qed

lemma map_result_total:
  "(\<forall>x \<in> set xs. \<exists>y. f x = Inr y) \<Longrightarrow> \<exists>ys. map_result f xs = Inr ys"
  by (induction xs) auto

lemma map_result_each:
  "map_result f xs = Inr ys \<Longrightarrow> \<forall>x \<in> set xs. \<exists>y. f x = Inr y"
  by (induction xs arbitrary: ys) (auto split: sum.splits)

lemma node_colors_defined:
  assumes "state_colors palette ms = Inr c"
  shows "\<exists>nc. state_colors palette (np_unique ms) = Inr nc"
  unfolding state_colors_def
  using map_result_each [OF assms [unfolded state_colors_def]]
  by (intro map_result_total) (simp add: np_unique_set)

lemma overlay_result:
  assumes "resolve_embedding lib data nn emb = (Inr (e, transformed), t0)"
    and "state_colors palette (resolve_memberships ms_arg g data) = Inr c"
    and "map_act (state_center lib e (state_model g)) (np_unique (resolve_memberships ms_arg g data))
           = (Inr centers, t1)"
  shows "fst (plot_metastable_graph lib palette data g nn True se ew emb ms_arg args)
     = (case fst (for_each (draw_edge (map fst centers) (map snd centers))
                    (resolve_edge_weights ew g)) of
          Inl err \<Rightarrow> Inl err
        | Inr u \<Rightarrow> Inr (Some (c, e)))"
proof -
  from node_colors_defined [OF assms(2)] obtain nc
    where nc: "state_colors palette (np_unique (resolve_memberships ms_arg g data)) = Inr nc"
    by blast
  show ?thesis
    unfolding plot_metastable_graph_def Let_def assms(1)
    by (simp add: andthen_Inr_pair run_simps fst_prepend fst_andthen assms(2,3) nc
        split: sum.split)
qed

lemma sorted_distinct_initial_segment:
  fixes xs :: "int list"
  assumes "sorted xs" and "distinct xs"
    and "\<forall>m \<in> set xs. 0 \<le> m \<and> py_getitem xs m = Inr m"
  shows "xs = map int [0..<length xs]"
proof -
  have sub: "set xs \<subseteq> int ` {0..<length xs}"
  proof
    fix m
    assume m: "m \<in> set xs"
    with assms(3) have "0 \<le> m" and "py_getitem xs m = Inr m"
      by auto
    then have "nat m < length xs"
      by (auto simp: py_getitem_def split: if_splits)
    with \<open>0 \<le> m\<close> show "m \<in> int ` {0..<length xs}"
      by (intro image_eqI [where x = "nat m"]) auto
  qed
  have "card (int ` {0..<length xs}) = length xs"
    by (simp add: card_image)
  moreover have "card (set xs) = length xs"
    using assms(2) by (simp add: distinct_card)
  ultimately have "set xs = int ` {0..<length xs}"
    using sub by (intro card_subset_eq) auto
  then have "set xs = set (map int [0..<length xs])"
    by simp
  moreover have "sorted (map int [0..<length xs])"
    by (simp add: sorted_map strict_sorted_iff [symmetric] sorted_wrt_iff_nth_less)
  moreover have "distinct (map int [0..<length xs])"
    by (simp add: distinct_map)
  ultimately show ?thesis
    using assms(1,2) by (intro sorted_distinct_set_unique) auto
qed

lemma np_unique_sorted_distinct: "sorted (np_unique ms) \<and> distinct (np_unique ms)"
  by (simp add: np_unique_def)

lemma initial_segment_lookup:
  assumes "xs = map int [0..<k]" and "i \<in> set xs"
  shows "py_getitem xs i = Inr i"
proof -
  from assms have "0 \<le> i" "nat i < k"
    by auto
  then show ?thesis
    using assms(1) by (simp add: py_getitem_def)
qed

text \<open>
  Claim C10: in the graph plotter with the overlay enabled, the node positions are built
  over the states present in the memberships only, and the end points of an edge are read
  from them at the \<^verbatim>\<open>index\<close> of each state. Once the embedding, the colours and the
  centres are there, the call returns exactly if every end point index lies within
  \<open>-k .. k - 1\<close>, for \<open>k\<close> present states (a negative index counts from the end, as
  Python has it), and raises IndexError otherwise; an index of \<open>k\<close> or more, as that of a
  state absent from the memberships can be, is out of range. If the present states are
  exactly \<open>0, ..., k - 1\<close>, the index of each present state finds that state's own node;
  and with non-negative labels this holds for every present state only then.
\<close>

theorem C10_edge_lookup:
  assumes "resolve_embedding lib data nn emb = (Inr (e, transformed), t0)"
    and "state_colors palette (resolve_memberships ms_arg g data) = Inr c"
    and "map_act (state_center lib e (state_model g)) (np_unique (resolve_memberships ms_arg g data))
           = (Inr centers, t1)"
  shows "length centers = length (np_unique (resolve_memberships ms_arg g data))
     \<and> fst (plot_metastable_graph lib palette data g nn True se ew emb ms_arg args)
         = (if \<forall>item \<in> set (resolve_edge_weights ew g).
                 (- int (length centers) \<le> index (fst (fst item))
                    \<and> index (fst (fst item)) < int (length centers))
               \<and> (- int (length centers) \<le> index (snd (fst item))
                    \<and> index (snd (fst item)) < int (length centers))
            then Inr (Some (c, e)) else Inl IndexError)
     \<and> (\<forall>i. int (length centers) \<le> i \<longrightarrow> py_getitem (map fst centers) i = Inl IndexError)
     \<and> (np_unique (resolve_memberships ms_arg g data) = map int [0..<length centers]
          \<longrightarrow> (\<forall>i \<in> set (np_unique (resolve_memberships ms_arg g data)).
                 py_getitem (np_unique (resolve_memberships ms_arg g data)) i = Inr i
                 \<and> py_getitem centers i = Inr (centers ! nat i)))
     \<and> ((\<forall>m \<in> set (resolve_memberships ms_arg g data).
             0 \<le> m \<and> py_getitem (np_unique (resolve_memberships ms_arg g data)) m = Inr m)
          \<longrightarrow> np_unique (resolve_memberships ms_arg g data) = map int [0..<length centers])"
proof -
  let ?ms = "resolve_memberships ms_arg g data"
  let ?us = "np_unique ?ms"
  have len: "length centers = length ?us"
    using centers_trace [OF assms(3), of Pyplot] by simp
  have XY: "length (map fst centers) = length (map snd centers)"
    by simp
  have run: "fst (plot_metastable_graph lib palette data g nn True se ew emb ms_arg args)
         = (if \<forall>item \<in> set (resolve_edge_weights ew g).
                 (- int (length centers) \<le> index (fst (fst item))
                    \<and> index (fst (fst item)) < int (length centers))
               \<and> (- int (length centers) \<le> index (snd (fst item))
                    \<and> index (snd (fst item)) < int (length centers))
            then Inr (Some (c, e)) else Inl IndexError)"
    unfolding overlay_result [OF assms] edges_result [OF XY] by simp
  have out: "py_getitem (map fst centers) i = Inl IndexError" if "int (length centers) \<le> i" for i
    using that by (simp add: py_getitem_def)
  have hit: "py_getitem ?us i = Inr i \<and> py_getitem centers i = Inr (centers ! nat i)"
    if us: "?us = map int [0..<length centers]" and i: "i \<in> set ?us" for i
  proof -
    from us i have "0 \<le> i" "nat i < length centers"
      by auto
    then have "py_getitem centers i = Inr (centers ! nat i)"
      by (simp add: py_getitem_def)
    with initial_segment_lookup [OF us i] show ?thesis
      by simp
  qed
  have only: "?us = map int [0..<length centers]"
    if "\<forall>m \<in> set ?ms. 0 \<le> m \<and> py_getitem ?us m = Inr m"
  proof -
    from that have "\<forall>m \<in> set ?us. 0 \<le> m \<and> py_getitem ?us m = Inr m"
      by (simp add: np_unique_set)
    with np_unique_sorted_distinct [of ?ms] have "?us = map int [0..<length ?us]"
      by (intro sorted_distinct_initial_segment) auto
    then show ?thesis
      by (simp add: len)
  qed
  from len run out hit only show ?thesis
    by blast
qed

text \<open>
  On the small instance, with states 0 and 1 present: an edge to a state of index 2 raises
  IndexError, an edge between the states 0 and 1 is drawn, and index 1 finds state 1.
\<close>

theorem C10_edge_lookup_witness:
  "resolve_embedding ex_lib ex_data None (Some ex_embedding)
     = (Inr (ex_embedding, [(0, 0), (1, 0), (2, 2), (3, 2)]), [LLE_transform ex_data])
   \<and> state_colors ex_palette (resolve_memberships None ex_graph ex_data)
     = Inr [''red'', ''red'', ''red'', ''blue'']
   \<and> map_act (state_center ex_lib ex_embedding (state_model ex_graph))
         (np_unique (resolve_memberships None ex_graph ex_data))
     = (Inr [(1, 0), (3, 2)], [LLE_transform [[1, 0, 0]], LLE_transform [[3, 2, 2]]])
   \<and> fst (plot_metastable_graph ex_lib ex_palette ex_data ex_graph None True []
          [((\<lparr>index = 0\<rparr>, \<lparr>index = 2\<rparr>), 1 / 2)] (Some ex_embedding) None [])
     = Inl IndexError
   \<and> fst (plot_metastable_graph ex_lib ex_palette ex_data ex_graph None True []
          [((\<lparr>index = 0\<rparr>, \<lparr>index = 1\<rparr>), 1 / 2)] (Some ex_embedding) None [])
     = Inr (Some ([''red'', ''red'', ''red'', ''blue''], ex_embedding))
   \<and> py_getitem (np_unique (resolve_memberships None ex_graph ex_data)) 1 = Inr 1"
proof -
  have colors: "state_colors ex_palette (resolve_memberships None ex_graph ex_data)
      = Inr [''red'', ''red'', ''red'', ''blue'']"
    by (simp only: ex_memberships ex_colors)
  have centers: "map_act (state_center ex_lib ex_embedding (state_model ex_graph))
         (np_unique (resolve_memberships None ex_graph ex_data))
      = (Inr [(1, 0), (3, 2)], [LLE_transform [[1, 0, 0]], LLE_transform [[3, 2, 2]]])"
    by (simp only: ex_memberships ex_unique ex_centers)
  note c10 = C10_edge_lookup [OF ex_resolve colors centers]
  note run = c10 [THEN conjunct2, THEN conjunct1]
  have absent: "fst (plot_metastable_graph ex_lib ex_palette ex_data ex_graph None True []
          [((\<lparr>index = 0\<rparr>, \<lparr>index = 2\<rparr>), 1 / 2)] (Some ex_embedding) None [])
     = Inl IndexError"
    unfolding run by (simp add: resolve_edge_weights_def)
  have present: "fst (plot_metastable_graph ex_lib ex_palette ex_data ex_graph None True []
          [((\<lparr>index = 0\<rparr>, \<lparr>index = 1\<rparr>), 1 / 2)] (Some ex_embedding) None [])
     = Inr (Some ([''red'', ''red'', ''red'', ''blue''], ex_embedding))"
    unfolding run by (simp add: resolve_edge_weights_def)
  have us: "np_unique (resolve_memberships None ex_graph ex_data)
      = map int [0..<length [(1, 0), (3 :: real, 2 :: real)]]"
    by (simp add: ex_memberships ex_unique upt_conv_Cons)
  have "1 \<in> set (np_unique (resolve_memberships None ex_graph ex_data))"
    by (simp add: ex_memberships ex_unique)
  with c10 [THEN conjunct2, THEN conjunct2, THEN conjunct2, THEN conjunct1, THEN mp, OF us]
  have hit: "py_getitem (np_unique (resolve_memberships None ex_graph ex_data)) 1 = Inr 1"
    by blast
  from ex_resolve colors centers absent present hit show ?thesis
    by (intro conjI)
qed

end
